theory Spec2Isabelle
  imports Main
begin

section \<open>Block assembly of mev-inspect (\<^verbatim>\<open>mev_inspect/block.py\<close>)\<close>

text \<open>
  The module assembles a \<open>Block\<close> from three lookups (header, receipts, traces), each of
  which asks the trace database first and the node second. Exceptions are values of
  the type \<open>error\<close>; a function that may raise returns \<open>error + 'a\<close>. The database
  and the record of the calls made to the outside live in a \<open>world\<close> that every
  effectful function takes and returns.
\<close>

subsection \<open>Values and exceptions\<close>

datatype error =
    KeyError string
  | TypeError
  | ValueError
  | MultipleResultsFound
  | TransportError string
  | ValidationError string

text \<open>JSON as Python holds it after decoding; an object is a \<open>dict\<close>.\<close>

datatype json =
    JNull
  | JBool bool
  | JInt int
  | JStr string
  | JList "json list"
  | JObj "string \<Rightarrow> json option"

text \<open>The subscript \<^verbatim>\<open>d[k]\<close> on a decoded JSON value.\<close>

fun getitem :: "json \<Rightarrow> string \<Rightarrow> error + json" where
  "getitem (JObj d) k = (case d k of None \<Rightarrow> Inl (KeyError k) | Some v \<Rightarrow> Inr v)"
| "getitem _ k = Inl TypeError"

subsection \<open>Schemas\<close>

text \<open>
  Modelled from the spec: the enumeration \<^verbatim>\<open>TraceType\<close> of
  \<^verbatim>\<open>mev_inspect.schemas.traces\<close> is imported by the module and not defined in it. The
  spec fixes that it is an enumeration with a \<open>reward\<close> variant; the other variants are
  the remaining kinds of a node's trace records, and the module never tells them apart.
\<close>

datatype TraceType = call | create | delegate_call | reward | suicide

text \<open>
  Modelled from the spec: \<^verbatim>\<open>Trace\<close>, \<^verbatim>\<open>Receipt\<close> and \<^verbatim>\<open>Block\<close> are schema
  classes imported by the module. Of a trace the module reads \<^verbatim>\<open>type\<close>,
  \<^verbatim>\<open>transaction_hash\<close> (an optional string) and \<^verbatim>\<open>action\<close> (a dict, whose entry
  \<^verbatim>\<open>author\<close> is the miner's address, a string). A receipt is never inspected, so its
  type is a parameter \<open>'r\<close>. The block, declared with the assembly below, has the six
  fields that its constructor call names.
\<close>

record Trace =
  type :: TraceType
  transaction_hash :: "string option"
  action :: "string \<Rightarrow> string option"

subsection \<open>The miner's address and the transaction hashes\<close>

text \<open>
  \<^verbatim>\<open>_get_miner_address_from_traces\<close>: the loop returns at the first reward trace; the
  subscript \<^verbatim>\<open>trace.action["author"]\<close> raises \<^verbatim>\<open>KeyError\<close> on a dict without that key.
\<close>

fun get_miner_address_from_traces :: "Trace list \<Rightarrow> error + string option" where
  "get_miner_address_from_traces [] = Inr None"
| "get_miner_address_from_traces (trace # rest) =
     (if type trace = reward
      then (case action trace ''author'' of
              None \<Rightarrow> Inl (KeyError ''author'')
            | Some a \<Rightarrow> Inr (Some a))
      else get_miner_address_from_traces rest)"

text \<open>
  \<^verbatim>\<open>get_transaction_hashes\<close>: the loop over \<open>calls\<close> with the list \<open>result\<close> it appends to.
\<close>

fun get_transaction_hashes_loop :: "Trace list \<Rightarrow> string list \<Rightarrow> string list" where
  "get_transaction_hashes_loop [] result = result"
| "get_transaction_hashes_loop (c # calls) result =
     (if type c \<noteq> reward
      then (case transaction_hash c of
              None \<Rightarrow> get_transaction_hashes_loop calls result
            | Some h \<Rightarrow>
                if h \<notin> set result
                then get_transaction_hashes_loop calls (result @ [h])
                else get_transaction_hashes_loop calls result)
      else get_transaction_hashes_loop calls result)"

definition get_transaction_hashes :: "Trace list \<Rightarrow> string list" where
  "get_transaction_hashes calls = get_transaction_hashes_loop calls []"

subsection \<open>The outside: the trace database and the node\<close>

text \<open>
  The trace database has three tables, each keyed by a block number column. A row of
  \<open>blocks\<close> is \<open>(block_number, block_timestamp, base_fee)\<close>; a row of \<open>block_traces\<close>
  and of \<open>block_receipts\<close> is the block number with the stored raw JSON list.
\<close>

record trace_db =
  blocks :: "(int \<times> int \<times> int) list"
  block_traces :: "(int \<times> json list) list"
  block_receipts :: "(int \<times> json list) list"

text \<open>Every statement sent to the database and every request sent to the node.\<close>

datatype event =
    Select_blocks int
  | Select_block_traces int
  | Select_block_receipts int
  | Eth_get_block int
  | Eth_get_block_receipts int
  | Eth_trace_block int
  | Make_request string "json list"

record world =
  db :: trace_db
  history :: "event list"

definition emit :: "event \<Rightarrow> world \<Rightarrow> world" where
  "emit ev w = w\<lparr>history := history w @ [ev]\<rparr>"

text \<open>
  \<^verbatim>\<open>trace_db_session: Optional[orm.Session]\<close>: a session is a handle on the database of
  the world; \<open>None\<close> means that no cache is configured.
\<close>

datatype Session = Session

text \<open>
  The node behind \<^verbatim>\<open>w3.eth\<close>: what each of the three requests answers for a block
  number, or the exception it raises. A header is a dict of integer fields.
\<close>

record Web3 =
  get_block :: "int \<Rightarrow> error + (string \<Rightarrow> int option)"
  get_block_receipts :: "int \<Rightarrow> error + json list"
  trace_block :: "int \<Rightarrow> error + json list"

record BaseProvider =
  make_request :: "string \<Rightarrow> json list \<Rightarrow> error + json"

text \<open>
  The constructors \<^verbatim>\<open>Trace(**trace_json)\<close> and \<^verbatim>\<open>Receipt(**receipt)\<close> belong to the
  schema classes, which validate their arguments and may raise; they are parameters.
\<close>

record 'r schemas =
  Trace_of :: "json \<Rightarrow> error + Trace"
  Receipt_of :: "json \<Rightarrow> error + 'r"

text \<open>A list comprehension whose element expression may raise stops at the first raise.\<close>

fun comprehension :: "('a \<Rightarrow> error + 'b) \<Rightarrow> 'a list \<Rightarrow> error + 'b list" where
  "comprehension f [] = Inr []"
| "comprehension f (x # xs) =
     (case f x of
        Inl e \<Rightarrow> Inl e
      | Inr y \<Rightarrow> (case comprehension f xs of Inl e \<Rightarrow> Inl e | Inr ys \<Rightarrow> Inr (y # ys)))"

text \<open>\<^verbatim>\<open>Result.one_or_none()\<close>: no row, the only row, or an exception on several rows.\<close>

fun one_or_none :: "'a list \<Rightarrow> error + 'a option" where
  "one_or_none [] = Inr None"
| "one_or_none [r] = Inr (Some r)"
| "one_or_none (r # r' # rs) = Inl MultipleResultsFound"

text \<open>The three \<^verbatim>\<open>SELECT ... WHERE block_number = :block_number\<close> statements.\<close>

definition select_blocks :: "int \<Rightarrow> world \<Rightarrow> (int \<times> int) list \<times> world" where
  "select_blocks block_number w =
     (map snd (filter (\<lambda>r. fst r = block_number) (blocks (db w))),
      emit (Select_blocks block_number) w)"

definition select_block_traces :: "int \<Rightarrow> world \<Rightarrow> json list list \<times> world" where
  "select_block_traces block_number w =
     (map snd (filter (\<lambda>r. fst r = block_number) (block_traces (db w))),
      emit (Select_block_traces block_number) w)"

definition select_block_receipts :: "int \<Rightarrow> world \<Rightarrow> json list list \<times> world" where
  "select_block_receipts block_number w =
     (map snd (filter (\<lambda>r. fst r = block_number) (block_receipts (db w))),
      emit (Select_block_receipts block_number) w)"

subsection \<open>Lookups in the trace database\<close>

definition find_block :: "Session \<Rightarrow> int \<Rightarrow> world \<Rightarrow> (error + int \<times> int) \<times> world" where
  "find_block trace_db_session block_number w =
     (case select_blocks block_number w of (rows, w') \<Rightarrow>
        (case one_or_none rows of
           Inl e \<Rightarrow> (Inl e, w')
         | Inr None \<Rightarrow> (Inr (0, 0), w')
         | Inr (Some (block_timestamp, base_fee)) \<Rightarrow> (Inr (block_timestamp, base_fee), w')))"

definition find_block_traces ::
  "'r schemas \<Rightarrow> Session \<Rightarrow> int \<Rightarrow> world \<Rightarrow> (error + Trace list option) \<times> world" where
  "find_block_traces sch trace_db_session block_number w =
     (case select_block_traces block_number w of (rows, w') \<Rightarrow>
        (case one_or_none rows of
           Inl e \<Rightarrow> (Inl e, w')
         | Inr None \<Rightarrow> (Inr None, w')
         | Inr (Some traces_json) \<Rightarrow>
             (case comprehension (Trace_of sch) traces_json of
                Inl e \<Rightarrow> (Inl e, w')
              | Inr ts \<Rightarrow> (Inr (Some ts), w'))))"

definition find_block_receipts ::
  "'r schemas \<Rightarrow> Session \<Rightarrow> int \<Rightarrow> world \<Rightarrow> (error + 'r list option) \<times> world" where
  "find_block_receipts sch trace_db_session block_number w =
     (case select_block_receipts block_number w of (rows, w') \<Rightarrow>
        (case one_or_none rows of
           Inl e \<Rightarrow> (Inl e, w')
         | Inr None \<Rightarrow> (Inr None, w')
         | Inr (Some receipts_json) \<Rightarrow>
             (case comprehension (Receipt_of sch) receipts_json of
                Inl e \<Rightarrow> (Inl e, w')
              | Inr rs \<Rightarrow> (Inr (Some rs), w'))))"

subsection \<open>Requests to the node\<close>

text \<open>
  \<^verbatim>\<open>_fetch_block\<close>: the tuple is built left to right, and the conditional expression
  reads \<^verbatim>\<open>block_json["baseFeePerGas"]\<close> only from block 12965000 on.
\<close>

definition fetch_block :: "Web3 \<Rightarrow> int \<Rightarrow> world \<Rightarrow> (error + int \<times> int) \<times> world" where
  "fetch_block w3 block_number w =
     (let w' = emit (Eth_get_block block_number) w in
      case get_block w3 block_number of
        Inl e \<Rightarrow> (Inl e, w')
      | Inr block_json \<Rightarrow>
          (case block_json ''timestamp'' of
             None \<Rightarrow> (Inl (KeyError ''timestamp''), w')
           | Some ts \<Rightarrow>
               if block_number \<ge> 12965000
               then (case block_json ''baseFeePerGas'' of
                       None \<Rightarrow> (Inl (KeyError ''baseFeePerGas''), w')
                     | Some bf \<Rightarrow> (Inr (ts, bf), w'))
               else (Inr (ts, 0), w')))"

definition fetch_block_receipts ::
  "'r schemas \<Rightarrow> Web3 \<Rightarrow> int \<Rightarrow> world \<Rightarrow> (error + 'r list) \<times> world" where
  "fetch_block_receipts sch w3 block_number w =
     (let w' = emit (Eth_get_block_receipts block_number) w in
      case get_block_receipts w3 block_number of
        Inl e \<Rightarrow> (Inl e, w')
      | Inr receipts_json \<Rightarrow> (comprehension (Receipt_of sch) receipts_json, w'))"

definition fetch_block_traces ::
  "'r schemas \<Rightarrow> Web3 \<Rightarrow> int \<Rightarrow> world \<Rightarrow> (error + Trace list) \<times> world" where
  "fetch_block_traces sch w3 block_number w =
     (let w' = emit (Eth_trace_block block_number) w in
      case trace_block w3 block_number of
        Inl e \<Rightarrow> (Inl e, w')
      | Inr traces_json \<Rightarrow> (comprehension (Trace_of sch) traces_json, w'))"

subsection \<open>Cache first, node second\<close>

definition find_or_fetch_block ::
  "Web3 \<Rightarrow> int \<Rightarrow> Session option \<Rightarrow> world \<Rightarrow> (error + int \<times> int) \<times> world" where
  "find_or_fetch_block w3 block_number trace_db_session w =
     (case trace_db_session of
        None \<Rightarrow> fetch_block w3 block_number w
      | Some s \<Rightarrow>
          (case find_block s block_number w of
             (Inl e, w') \<Rightarrow> (Inl e, w')
           | (Inr (existing_block_timestamp, existing_base_fee), w') \<Rightarrow>
               if existing_block_timestamp \<noteq> 0
               then (Inr (existing_block_timestamp, existing_base_fee), w')
               else fetch_block w3 block_number w'))"

definition find_or_fetch_block_receipts ::
  "'r schemas \<Rightarrow> Web3 \<Rightarrow> int \<Rightarrow> Session option \<Rightarrow> world \<Rightarrow> (error + 'r list) \<times> world" where
  "find_or_fetch_block_receipts sch w3 block_number trace_db_session w =
     (case trace_db_session of
        None \<Rightarrow> fetch_block_receipts sch w3 block_number w
      | Some s \<Rightarrow>
          (case find_block_receipts sch s block_number w of
             (Inl e, w') \<Rightarrow> (Inl e, w')
           | (Inr (Some existing_block_receipts), w') \<Rightarrow> (Inr existing_block_receipts, w')
           | (Inr None, w') \<Rightarrow> fetch_block_receipts sch w3 block_number w'))"

definition find_or_fetch_block_traces ::
  "'r schemas \<Rightarrow> Web3 \<Rightarrow> int \<Rightarrow> Session option \<Rightarrow> world \<Rightarrow> (error + Trace list) \<times> world" where
  "find_or_fetch_block_traces sch w3 block_number trace_db_session w =
     (case trace_db_session of
        None \<Rightarrow> fetch_block_traces sch w3 block_number w
      | Some s \<Rightarrow>
          (case find_block_traces sch s block_number w of
             (Inl e, w') \<Rightarrow> (Inl e, w')
           | (Inr (Some existing_block_traces), w') \<Rightarrow> (Inr existing_block_traces, w')
           | (Inr None, w') \<Rightarrow> fetch_block_traces sch w3 block_number w'))"

subsection \<open>Assembly\<close>

text \<open>
  \<^verbatim>\<open>asyncio.gather\<close> starts the three lookups in the order of its arguments; each runs
  its database query and sends its request to the node before the next one starts, so
  the events of the model are in that order. None of them is cancelled when another
  raises. When several raise, the exception that \<open>gather\<close> passes on is that of the lookup
  that finished first, which the code does not determine: the parameter \<open>first\<close> picks
  it among the lookups that raised.
\<close>

definition raised :: "error + 'a \<Rightarrow> error list" where
  "raised r = (case r of Inl e \<Rightarrow> [e] | Inr _ \<Rightarrow> [])"

definition gather ::
  "nat \<Rightarrow> error + 'a \<Rightarrow> error + 'b \<Rightarrow> error + 'c \<Rightarrow> error + 'a \<times> 'b \<times> 'c" where
  "gather first a b c =
     (case (a, b, c) of
        (Inr x, Inr y, Inr z) \<Rightarrow> Inr (x, y, z)
      | _ \<Rightarrow> (let failed = raised a @ raised b @ raised c
              in Inl (failed ! (first mod length failed))))"

text \<open>
  The fields of \<^verbatim>\<open>Block\<close> are constants from here on, so the parameter
  \<^verbatim>\<open>block_number\<close> and the local variables \<^verbatim>\<open>block_timestamp\<close>, \<^verbatim>\<open>receipts\<close>
  and \<^verbatim>\<open>traces\<close> of \<^verbatim>\<open>create_from_block_number\<close> are written \<open>number\<close>,
  \<open>timestamp\<close>, \<open>rs\<close> and \<open>ts\<close>.
\<close>

record 'r Block =
  block_number :: int
  block_timestamp :: int
  miner :: "string option"
  base_fee_per_gas :: int
  traces :: "Trace list"
  receipts :: "'r list"

definition create_from_block_number ::
  "nat \<Rightarrow> 'r schemas \<Rightarrow> Web3 \<Rightarrow> int \<Rightarrow> Session option \<Rightarrow> world \<Rightarrow> (error + 'r Block) \<times> world"
  where
  "create_from_block_number first sch w3 number trace_db_session w =
     (case find_or_fetch_block w3 number trace_db_session w of (r1, w1) \<Rightarrow>
      case find_or_fetch_block_receipts sch w3 number trace_db_session w1 of (r2, w2) \<Rightarrow>
      case find_or_fetch_block_traces sch w3 number trace_db_session w2 of (r3, w3') \<Rightarrow>
        (case gather first r1 r2 r3 of
           Inl e \<Rightarrow> (Inl e, w3')
         | Inr ((timestamp, base_fee), rs, ts) \<Rightarrow>
             (case get_miner_address_from_traces ts of
                Inl e \<Rightarrow> (Inl e, w3')
              | Inr miner_address \<Rightarrow>
                  (Inr \<lparr>block_number = number,
                        block_timestamp = timestamp,
                        miner = miner_address,
                        base_fee_per_gas = base_fee,
                        traces = ts,
                        receipts = rs\<rparr>, w3'))))"

subsection \<open>The chain head\<close>

text \<open>
  Modelled from the spec: \<^verbatim>\<open>hex_to_int\<close> of \<^verbatim>\<open>mev_inspect.utils\<close> is imported by the
  module and not defined in it. The spec says that it decodes the hexadecimal block
  number field into an integer (\<^verbatim>\<open>"0xa"\<close> is 10) and fails on malformed hex: the digits
  after an optional \<^verbatim>\<open>0x\<close> are read in base 16, most significant first, and a
  character that is no hexadecimal digit, or a value that is no string, is an error.
\<close>

definition hex_digit :: "char \<Rightarrow> nat option" where
  "hex_digit c =
     (let k = (of_char c :: nat) in
      if 48 \<le> k \<and> k \<le> 57 then Some (k - 48)
      else if 97 \<le> k \<and> k \<le> 102 then Some (k - 87)
      else if 65 \<le> k \<and> k \<le> 70 then Some (k - 55)
      else None)"

fun hex_digits_to_int :: "string \<Rightarrow> int \<Rightarrow> error + int" where
  "hex_digits_to_int [] acc = Inr acc"
| "hex_digits_to_int (c # cs) acc =
     (case hex_digit c of
        None \<Rightarrow> Inl ValueError
      | Some d \<Rightarrow> hex_digits_to_int cs (16 * acc + int d))"

fun strip_0x :: "string \<Rightarrow> string" where
  "strip_0x (a # b # rest) =
     (if a = CHR ''0'' \<and> (b = CHR ''x'' \<or> b = CHR ''X'') then rest else a # b # rest)"
| "strip_0x s = s"

fun hex_to_int :: "json \<Rightarrow> error + int" where
  "hex_to_int (JStr s) = hex_digits_to_int (strip_0x s) 0"
| "hex_to_int _ = Inl TypeError"

definition get_latest_block_number :: "BaseProvider \<Rightarrow> world \<Rightarrow> (error + int) \<times> world" where
  "get_latest_block_number base_provider w =
     (let params = [JStr ''latest'', JBool False];
          w' = emit (Make_request ''eth_getBlockByNumber'' params) w in
      case make_request base_provider ''eth_getBlockByNumber'' params of
        Inl e \<Rightarrow> (Inl e, w')
      | Inr latest_block \<Rightarrow>
          (case getitem latest_block ''result'' of
             Inl e \<Rightarrow> (Inl e, w')
           | Inr res \<Rightarrow>
               (case getitem res ''number'' of
                  Inl e \<Rightarrow> (Inl e, w')
                | Inr number \<Rightarrow> (hex_to_int number, w'))))"

subsection \<open>Notions used to state the properties\<close>

text \<open>The events that a run from world \<open>w\<close> to world \<open>w'\<close> has added to the history.\<close>

definition issued :: "world \<Rightarrow> world \<Rightarrow> event list" where
  "issued w w' = drop (length (history w)) (history w')"

text \<open>
  The specification of \<^verbatim>\<open>getTransactionHashes\<close> in its own words: the hashes of the
  traces that are no reward and have a hash, in the order of the traces, and of a
  list the first occurrence of each element, in order.
\<close>

definition candidate_hashes :: "Trace list \<Rightarrow> string list" where
  "candidate_hashes calls =
     concat (map (\<lambda>c. case transaction_hash c of None \<Rightarrow> [] | Some h \<Rightarrow> [h])
                 (filter (\<lambda>c. type c \<noteq> reward) calls))"

fun first_occurrences :: "'a list \<Rightarrow> 'a list" where
  "first_occurrences [] = []"
| "first_occurrences (x # xs) = x # filter (\<lambda>y. y \<noteq> x) (first_occurrences xs)"

section \<open>Properties\<close>

subsection \<open>The miner's address\<close>

lemma miner_find:
  "get_miner_address_from_traces ts =
     (case find (\<lambda>t. type t = reward) ts of
        None \<Rightarrow> Inr None
      | Some t \<Rightarrow> (case action t ''author'' of
                     None \<Rightarrow> Inl (KeyError ''author'')
                   | Some a \<Rightarrow> Inr (Some a)))"
  by (induction ts) simp_all

lemma find_first_reward:
  "\<forall>p \<in> set pre. type p \<noteq> reward \<Longrightarrow> type t = reward \<Longrightarrow>
   find (\<lambda>t. type t = reward) (pre @ t # post) = Some t"
  by (induction pre) simp_all

text \<open>
  C5. \<^verbatim>\<open>_get_miner_address_from_traces\<close> returns no value on a list without a reward
  trace, and the author of the first reward trace otherwise, whatever follows that
  trace: the traces before it are no rewards, those after it are not looked at. The
  author is returned when the action of that trace has one.
\<close>

theorem miner_is_first_reward_author:
  "(find (\<lambda>t. type t = reward) ts = None \<longrightarrow> get_miner_address_from_traces ts = Inr None)
   \<and> (\<forall>t a. find (\<lambda>t. type t = reward) ts = Some t \<and> action t ''author'' = Some a
         \<longrightarrow> get_miner_address_from_traces ts = Inr (Some a))
   \<and> (\<forall>pre t post a. ts = pre @ t # post \<and> (\<forall>p \<in> set pre. type p \<noteq> reward)
         \<and> type t = reward \<and> action t ''author'' = Some a
         \<longrightarrow> get_miner_address_from_traces ts = Inr (Some a))"
proof (intro conjI allI impI)
  assume "find (\<lambda>t. type t = reward) ts = None"
  then show "get_miner_address_from_traces ts = Inr None"
    by (simp add: miner_find)
next
  fix t a
  assume "find (\<lambda>t. type t = reward) ts = Some t \<and> action t ''author'' = Some a"
  then show "get_miner_address_from_traces ts = Inr (Some a)"
    by (simp add: miner_find)
next
  fix pre t post a
  assume h: "ts = pre @ t # post \<and> (\<forall>p \<in> set pre. type p \<noteq> reward)
             \<and> type t = reward \<and> action t ''author'' = Some a"
  then have "find (\<lambda>t. type t = reward) ts = Some t"
    using find_first_reward[of pre t post] by simp
  with h show "get_miner_address_from_traces ts = Inr (Some a)"
    by (simp add: miner_find)
qed

theorem miner_is_first_reward_author_witness:
  "get_miner_address_from_traces
     [\<lparr>type = call, transaction_hash = Some ''0x01'', action = Map.empty\<rparr>,
      \<lparr>type = reward, transaction_hash = None, action = [''author'' \<mapsto> ''0xaa'']\<rparr>,
      \<lparr>type = reward, transaction_hash = None, action = [''author'' \<mapsto> ''0xbb'']\<rparr>]
     = Inr (Some ''0xaa'')
   \<and> get_miner_address_from_traces
       [\<lparr>type = call, transaction_hash = Some ''0x01'', action = Map.empty\<rparr>] = Inr None"
  using miner_is_first_reward_author
          [of "[\<lparr>type = call, transaction_hash = Some ''0x01'', action = Map.empty\<rparr>,
                \<lparr>type = reward, transaction_hash = None, action = [''author'' \<mapsto> ''0xaa'']\<rparr>,
                \<lparr>type = reward, transaction_hash = None, action = [''author'' \<mapsto> ''0xbb'']\<rparr>]"]
        miner_is_first_reward_author
          [of "[\<lparr>type = call, transaction_hash = Some ''0x01'', action = Map.empty\<rparr>]"]
  by simp

text \<open>
  C10. When the action of the first reward trace has no \<^verbatim>\<open>author\<close> entry, the
  subscript is not guarded and \<^verbatim>\<open>_get_miner_address_from_traces\<close> raises
  \<^verbatim>\<open>KeyError\<close>: it returns neither an address nor no value.
\<close>

theorem miner_raises_without_author:
  "find (\<lambda>t. type t = reward) ts = Some t \<Longrightarrow> action t ''author'' = None \<Longrightarrow>
   get_miner_address_from_traces ts = Inl (KeyError ''author'')"
  by (simp add: miner_find)

theorem miner_raises_without_author_witness:
  "find (\<lambda>t. type t = reward)
     [\<lparr>type = call, transaction_hash = Some ''0x01'', action = Map.empty\<rparr>,
      \<lparr>type = reward, transaction_hash = None, action = [''value'' \<mapsto> ''0x1bc1'']\<rparr>]
     = Some \<lparr>type = reward, transaction_hash = None, action = [''value'' \<mapsto> ''0x1bc1'']\<rparr>
   \<and> [''value'' \<mapsto> ''0x1bc1''] ''author'' = None
   \<and> get_miner_address_from_traces
       [\<lparr>type = call, transaction_hash = Some ''0x01'', action = Map.empty\<rparr>,
        \<lparr>type = reward, transaction_hash = None, action = [''value'' \<mapsto> ''0x1bc1'']\<rparr>]
       = Inl (KeyError ''author'')"
  using miner_raises_without_author
          [of "[\<lparr>type = call, transaction_hash = Some ''0x01'', action = Map.empty\<rparr>,
                \<lparr>type = reward, transaction_hash = None, action = [''value'' \<mapsto> ''0x1bc1'']\<rparr>]"
              "\<lparr>type = reward, transaction_hash = None, action = [''value'' \<mapsto> ''0x1bc1'']\<rparr>"]
  by simp

subsection \<open>The transaction hashes\<close>

lemma set_first_occurrences: "set (first_occurrences xs) = set xs"
  by (induction xs) auto

lemma distinct_first_occurrences: "distinct (first_occurrences xs)"
  by (induction xs) (auto simp: set_first_occurrences)

lemma first_occurrences_remdups: "first_occurrences xs = rev (remdups (rev xs))"
proof (induction xs)
  case Nil
  show ?case by simp
next
  case (Cons x xs)
  have "remdups (ys @ [x]) = filter (\<lambda>y. y \<noteq> x) (remdups ys) @ [x]" for ys
    by (induction ys) auto
  then show ?case using Cons by (simp add: rev_filter)
qed

lemma candidate_Cons:
  "candidate_hashes (c # calls) =
     (if type c \<noteq> reward then (case transaction_hash c of None \<Rightarrow> [] | Some h \<Rightarrow> [h]) else [])
     @ candidate_hashes calls"
  by (simp add: candidate_hashes_def)

lemma loop_first_occurrences:
  "get_transaction_hashes_loop calls result =
     result @ filter (\<lambda>h. h \<notin> set result) (first_occurrences (candidate_hashes calls))"
proof (induction calls arbitrary: result)
  case Nil
  show ?case by (simp add: candidate_hashes_def)
next
  case (Cons c calls)
  show ?case
  proof (cases "type c \<noteq> reward")
    case False
    then show ?thesis using Cons by (simp add: candidate_Cons)
  next
    case nr: True
    show ?thesis
    proof (cases "transaction_hash c")
      case None
      then show ?thesis using nr Cons by (simp add: candidate_Cons)
    next
      case (Some h)
      show ?thesis
      proof (cases "h \<in> set result")
        case True
        then have "filter (\<lambda>k. k \<notin> set result) (filter (\<lambda>y. y \<noteq> h) zs)
                 = filter (\<lambda>k. k \<notin> set result) zs" for zs
          by (induction zs) auto
        then show ?thesis using nr Some True Cons by (simp add: candidate_Cons)
      next
        case False
        have "filter (\<lambda>k. k \<notin> set (result @ [h])) zs
            = filter (\<lambda>k. k \<notin> set result) (filter (\<lambda>y. y \<noteq> h) zs)" for zs
          by (induction zs) auto
        then show ?thesis
          using nr Some False Cons[of "result @ [h]"] by (simp add: candidate_Cons)
      qed
    qed
  qed
qed

lemma hashes_first_occurrences:
  "get_transaction_hashes calls = first_occurrences (candidate_hashes calls)"
  by (simp add: get_transaction_hashes_def loop_first_occurrences)

text \<open>
  C6. \<^verbatim>\<open>get_transaction_hashes\<close> returns the hashes of the traces that are no reward
  and have a hash, each once, at the place of its first occurrence: the result has no
  duplicates and the same elements as those hashes, and it is their list with only the
  first occurrence of each kept (said twice, with \<open>first_occurrences\<close> and with the
  library's \<open>remdups\<close>, which keeps last occurrences, on the reversed list). On
  \<open>[reward, tx(A), tx(B), tx(A), reward]\<close> with \<open>A \<noteq> B\<close> it returns \<open>[A, B]\<close>.
\<close>

theorem transaction_hashes_first_seen:
  "get_transaction_hashes calls = first_occurrences (candidate_hashes calls)
   \<and> distinct (get_transaction_hashes calls)
   \<and> set (get_transaction_hashes calls) = set (candidate_hashes calls)
   \<and> get_transaction_hashes calls = rev (remdups (rev (candidate_hashes calls)))
   \<and> (A \<noteq> B \<longrightarrow> type r1 = reward \<longrightarrow> type r2 = reward \<longrightarrow>
        type t1 \<noteq> reward \<longrightarrow> type t2 \<noteq> reward \<longrightarrow> type t3 \<noteq> reward \<longrightarrow>
        transaction_hash t1 = Some A \<longrightarrow> transaction_hash t2 = Some B \<longrightarrow>
        transaction_hash t3 = Some A \<longrightarrow>
        get_transaction_hashes [r1, t1, t2, t3, r2] = [A, B])"
proof (intro conjI impI)
  show "get_transaction_hashes calls = first_occurrences (candidate_hashes calls)"
    by (rule hashes_first_occurrences)
  show "distinct (get_transaction_hashes calls)"
    by (simp add: hashes_first_occurrences distinct_first_occurrences)
  show "set (get_transaction_hashes calls) = set (candidate_hashes calls)"
    by (simp add: hashes_first_occurrences set_first_occurrences)
  show "get_transaction_hashes calls = rev (remdups (rev (candidate_hashes calls)))"
    by (simp add: hashes_first_occurrences first_occurrences_remdups)
next
  assume "A \<noteq> B" "type r1 = reward" "type r2 = reward"
    "type t1 \<noteq> reward" "type t2 \<noteq> reward" "type t3 \<noteq> reward"
    "transaction_hash t1 = Some A" "transaction_hash t2 = Some B" "transaction_hash t3 = Some A"
  then show "get_transaction_hashes [r1, t1, t2, t3, r2] = [A, B]"
    by (simp add: get_transaction_hashes_def)
qed

theorem transaction_hashes_first_seen_witness:
  "get_transaction_hashes
     [\<lparr>type = reward, transaction_hash = None, action = Map.empty\<rparr>,
      \<lparr>type = call, transaction_hash = Some ''0xaa'', action = Map.empty\<rparr>,
      \<lparr>type = create, transaction_hash = Some ''0xbb'', action = Map.empty\<rparr>,
      \<lparr>type = call, transaction_hash = Some ''0xaa'', action = Map.empty\<rparr>,
      \<lparr>type = reward, transaction_hash = None, action = Map.empty\<rparr>]
   = [''0xaa'', ''0xbb'']"
  using transaction_hashes_first_seen
          [of "[]" "''0xaa''" "''0xbb''"
              "\<lparr>type = reward, transaction_hash = None, action = Map.empty\<rparr>"
              "\<lparr>type = reward, transaction_hash = None, action = Map.empty\<rparr>"
              "\<lparr>type = call, transaction_hash = Some ''0xaa'', action = Map.empty\<rparr>"
              "\<lparr>type = create, transaction_hash = Some ''0xbb'', action = Map.empty\<rparr>"
              "\<lparr>type = call, transaction_hash = Some ''0xaa'', action = Map.empty\<rparr>"]
  by simp

subsection \<open>What the lookups return and what they add to the history\<close>

lemma db_emit: "db (emit ev w) = db w"
  by (simp add: emit_def)

lemma history_emit: "history (emit ev w) = history w @ [ev]"
  by (simp add: emit_def)

lemma snd_find_block: "snd (find_block s n w) = emit (Select_blocks n) w"
  by (simp add: find_block_def select_blocks_def split: sum.splits option.splits prod.splits)

lemma snd_find_block_receipts: "snd (find_block_receipts sch s n w) = emit (Select_block_receipts n) w"
  by (simp add: find_block_receipts_def select_block_receipts_def
           split: sum.splits option.splits prod.splits)

lemma snd_find_block_traces: "snd (find_block_traces sch s n w) = emit (Select_block_traces n) w"
  by (simp add: find_block_traces_def select_block_traces_def
           split: sum.splits option.splits prod.splits)

lemma snd_fetch_block: "snd (fetch_block w3 n w) = emit (Eth_get_block n) w"
  by (simp add: fetch_block_def Let_def split: sum.splits option.splits)

lemma snd_fetch_block_receipts:
  "snd (fetch_block_receipts sch w3 n w) = emit (Eth_get_block_receipts n) w"
  by (simp add: fetch_block_receipts_def Let_def split: sum.splits)

lemma snd_fetch_block_traces:
  "snd (fetch_block_traces sch w3 n w) = emit (Eth_trace_block n) w"
  by (simp add: fetch_block_traces_def Let_def split: sum.splits)

text \<open>Results depend on the database only.\<close>

lemma fst_find_block_db: "db w' = db w \<Longrightarrow> fst (find_block s n w') = fst (find_block s n w)"
  by (simp add: find_block_def select_blocks_def split: sum.splits option.splits prod.splits)

lemma fst_find_block_receipts_db:
  "db w' = db w \<Longrightarrow> fst (find_block_receipts sch s n w') = fst (find_block_receipts sch s n w)"
  by (simp add: find_block_receipts_def select_block_receipts_def
           split: sum.splits option.splits prod.splits)

lemma fst_find_block_traces_db:
  "db w' = db w \<Longrightarrow> fst (find_block_traces sch s n w') = fst (find_block_traces sch s n w)"
  by (simp add: find_block_traces_def select_block_traces_def
           split: sum.splits option.splits prod.splits)

lemma fst_fetch_block_any: "fst (fetch_block w3 n w') = fst (fetch_block w3 n w)"
  by (simp add: fetch_block_def Let_def split: sum.splits option.splits)

lemma fst_fetch_block_receipts_any:
  "fst (fetch_block_receipts sch w3 n w') = fst (fetch_block_receipts sch w3 n w)"
  by (simp add: fetch_block_receipts_def Let_def split: sum.splits)

lemma fst_fetch_block_traces_any:
  "fst (fetch_block_traces sch w3 n w') = fst (fetch_block_traces sch w3 n w)"
  by (simp add: fetch_block_traces_def Let_def split: sum.splits)

text \<open>The cache-or-fetch lookups, result and world apart.\<close>

lemma fetch_block_eq:
  "fetch_block w3 n w' = (fst (fetch_block w3 n w), emit (Eth_get_block n) w')"
  using snd_fetch_block[of w3 n w'] fst_fetch_block_any[of w3 n w' w]
  by (simp add: prod_eq_iff)

lemma fetch_block_receipts_eq:
  "fetch_block_receipts sch w3 n w' =
     (fst (fetch_block_receipts sch w3 n w), emit (Eth_get_block_receipts n) w')"
  using snd_fetch_block_receipts[of sch w3 n w'] fst_fetch_block_receipts_any[of sch w3 n w' w]
  by (simp add: prod_eq_iff)

lemma fetch_block_traces_eq:
  "fetch_block_traces sch w3 n w' =
     (fst (fetch_block_traces sch w3 n w), emit (Eth_trace_block n) w')"
  using snd_fetch_block_traces[of sch w3 n w'] fst_fetch_block_traces_any[of sch w3 n w' w]
  by (simp add: prod_eq_iff)

lemma find_or_fetch_block_eq:
  "find_or_fetch_block w3 n sess w =
     (case sess of
        None \<Rightarrow> (fst (fetch_block w3 n w), emit (Eth_get_block n) w)
      | Some s \<Rightarrow>
          (case fst (find_block s n w) of
             Inl e \<Rightarrow> (Inl e, emit (Select_blocks n) w)
           | Inr (ts, bf) \<Rightarrow>
               if ts \<noteq> 0 then (Inr (ts, bf), emit (Select_blocks n) w)
               else (fst (fetch_block w3 n w),
                     emit (Eth_get_block n) (emit (Select_blocks n) w))))"
proof (cases sess)
  case None
  then show ?thesis
    using fetch_block_eq[of w3 n w w] by (simp add: find_or_fetch_block_def)
next
  case (Some s)
  obtain r where fb: "find_block s n w = (r, emit (Select_blocks n) w)"
    using snd_find_block[of s n w] by (cases "find_block s n w") simp
  show ?thesis
    using Some fetch_block_eq[of w3 n "emit (Select_blocks n) w" w]
    by (simp add: find_or_fetch_block_def fb split: sum.splits prod.splits)
qed

lemma find_or_fetch_block_receipts_eq:
  "find_or_fetch_block_receipts sch w3 n sess w =
     (case sess of
        None \<Rightarrow> (fst (fetch_block_receipts sch w3 n w), emit (Eth_get_block_receipts n) w)
      | Some s \<Rightarrow>
          (case fst (find_block_receipts sch s n w) of
             Inl e \<Rightarrow> (Inl e, emit (Select_block_receipts n) w)
           | Inr (Some rs) \<Rightarrow> (Inr rs, emit (Select_block_receipts n) w)
           | Inr None \<Rightarrow>
               (fst (fetch_block_receipts sch w3 n w),
                emit (Eth_get_block_receipts n) (emit (Select_block_receipts n) w))))"
proof (cases sess)
  case None
  then show ?thesis
    using fetch_block_receipts_eq[of sch w3 n w w] by (simp add: find_or_fetch_block_receipts_def)
next
  case (Some s)
  obtain r where fb: "find_block_receipts sch s n w = (r, emit (Select_block_receipts n) w)"
    using snd_find_block_receipts[of sch s n w] by (cases "find_block_receipts sch s n w") simp
  show ?thesis
    using Some fetch_block_receipts_eq[of sch w3 n "emit (Select_block_receipts n) w" w]
    by (simp add: find_or_fetch_block_receipts_def fb split: sum.splits option.splits)
qed

lemma find_or_fetch_block_traces_eq:
  "find_or_fetch_block_traces sch w3 n sess w =
     (case sess of
        None \<Rightarrow> (fst (fetch_block_traces sch w3 n w), emit (Eth_trace_block n) w)
      | Some s \<Rightarrow>
          (case fst (find_block_traces sch s n w) of
             Inl e \<Rightarrow> (Inl e, emit (Select_block_traces n) w)
           | Inr (Some ts) \<Rightarrow> (Inr ts, emit (Select_block_traces n) w)
           | Inr None \<Rightarrow>
               (fst (fetch_block_traces sch w3 n w),
                emit (Eth_trace_block n) (emit (Select_block_traces n) w))))"
proof (cases sess)
  case None
  then show ?thesis
    using fetch_block_traces_eq[of sch w3 n w w] by (simp add: find_or_fetch_block_traces_def)
next
  case (Some s)
  obtain r where fb: "find_block_traces sch s n w = (r, emit (Select_block_traces n) w)"
    using snd_find_block_traces[of sch s n w] by (cases "find_block_traces sch s n w") simp
  show ?thesis
    using Some fetch_block_traces_eq[of sch w3 n "emit (Select_block_traces n) w" w]
    by (simp add: find_or_fetch_block_traces_def fb split: sum.splits option.splits)
qed


text \<open>Results of the lookups depend on the database only.\<close>

lemma fst_find_or_fetch_block_db:
  "db w' = db w \<Longrightarrow>
   fst (find_or_fetch_block w3 n sess w') = fst (find_or_fetch_block w3 n sess w)"
  using fst_find_block_db[of w' w _ n] fst_fetch_block_any[of w3 n w' w]
  by (simp add: find_or_fetch_block_eq split: option.splits sum.splits prod.splits)

lemma fst_find_or_fetch_block_receipts_db:
  "db w' = db w \<Longrightarrow>
   fst (find_or_fetch_block_receipts sch w3 n sess w')
     = fst (find_or_fetch_block_receipts sch w3 n sess w)"
  using fst_find_block_receipts_db[of w' w sch _ n] fst_fetch_block_receipts_any[of sch w3 n w' w]
  by (simp add: find_or_fetch_block_receipts_eq split: option.splits sum.splits)

lemma fst_find_or_fetch_block_traces_db:
  "db w' = db w \<Longrightarrow>
   fst (find_or_fetch_block_traces sch w3 n sess w')
     = fst (find_or_fetch_block_traces sch w3 n sess w)"
  using fst_find_block_traces_db[of w' w sch _ n] fst_fetch_block_traces_any[of sch w3 n w' w]
  by (simp add: find_or_fetch_block_traces_eq split: option.splits sum.splits)

text \<open>What each lookup adds to the history.\<close>

lemma emit_twice: "emit e2 (emit e1 w) = w\<lparr>history := history w @ [e1, e2]\<rparr>"
  by (simp add: emit_def)

lemma emit_once: "emit e1 w = w\<lparr>history := history w @ [e1]\<rparr>"
  by (simp add: emit_def)

lemma header_events:
  "\<exists>evs. snd (find_or_fetch_block w3 n sess w) = w\<lparr>history := history w @ evs\<rparr>
         \<and> set evs \<subseteq> {Select_blocks n, Eth_get_block n}"
  by (auto simp: find_or_fetch_block_eq emit_twice emit_once
           split: option.splits sum.splits prod.splits)

lemma receipts_events:
  "\<exists>evs. snd (find_or_fetch_block_receipts sch w3 n sess w) = w\<lparr>history := history w @ evs\<rparr>
         \<and> set evs \<subseteq> {Select_block_receipts n, Eth_get_block_receipts n}"
  by (auto simp: find_or_fetch_block_receipts_eq emit_twice emit_once
           split: option.splits sum.splits)

lemma traces_events:
  "\<exists>evs. snd (find_or_fetch_block_traces sch w3 n sess w) = w\<lparr>history := history w @ evs\<rparr>
         \<and> set evs \<subseteq> {Select_block_traces n, Eth_trace_block n}"
  by (auto simp: find_or_fetch_block_traces_eq emit_twice emit_once
           split: option.splits sum.splits)

lemma issued_extend: "issued w (w\<lparr>history := history w @ evs\<rparr>) = evs"
  by (simp add: issued_def)

lemma snd_create:
  "snd (create_from_block_number first sch w3 n sess w) =
     snd (find_or_fetch_block_traces sch w3 n sess
       (snd (find_or_fetch_block_receipts sch w3 n sess
         (snd (find_or_fetch_block w3 n sess w)))))"
  by (simp add: create_from_block_number_def split: prod.splits sum.splits)

lemma db_find_or_fetch_block: "db (snd (find_or_fetch_block w3 n sess w)) = db w"
  using header_events[of w3 n sess w] by auto

lemma db_find_or_fetch_block_receipts:
  "db (snd (find_or_fetch_block_receipts sch w3 n sess w)) = db w"
  using receipts_events[of sch w3 n sess w] by auto

lemma db_find_or_fetch_block_traces:
  "db (snd (find_or_fetch_block_traces sch w3 n sess w)) = db w"
  using traces_events[of sch w3 n sess w] by auto

lemma create_result:
  "fst (create_from_block_number first sch w3 n sess w) =
     (case gather first (fst (find_or_fetch_block w3 n sess w))
                        (fst (find_or_fetch_block_receipts sch w3 n sess w))
                        (fst (find_or_fetch_block_traces sch w3 n sess w)) of
        Inl e \<Rightarrow> Inl e
      | Inr ((timestamp, base_fee), rs, ts) \<Rightarrow>
          (case get_miner_address_from_traces ts of
             Inl e \<Rightarrow> Inl e
           | Inr miner_address \<Rightarrow>
               Inr \<lparr>block_number = n, block_timestamp = timestamp, miner = miner_address,
                    base_fee_per_gas = base_fee, traces = ts, receipts = rs\<rparr>))"
proof -
  obtain a w1 where p1: "find_or_fetch_block w3 n sess w = (a, w1)"
    by (cases "find_or_fetch_block w3 n sess w")
  obtain b w2 where p2: "find_or_fetch_block_receipts sch w3 n sess w1 = (b, w2)"
    by (cases "find_or_fetch_block_receipts sch w3 n sess w1")
  obtain c w3' where p3: "find_or_fetch_block_traces sch w3 n sess w2 = (c, w3')"
    by (cases "find_or_fetch_block_traces sch w3 n sess w2")
  have d1: "db w1 = db w"
    using db_find_or_fetch_block[of w3 n sess w] p1 by simp
  have d2: "db w2 = db w"
    using db_find_or_fetch_block_receipts[of sch w3 n sess w1] p2 d1 by simp
  have a: "fst (find_or_fetch_block w3 n sess w) = a"
    using p1 by simp
  have b: "fst (find_or_fetch_block_receipts sch w3 n sess w) = b"
    using fst_find_or_fetch_block_receipts_db[OF d1, of sch w3 n sess] p2 by simp
  have c: "fst (find_or_fetch_block_traces sch w3 n sess w) = c"
    using fst_find_or_fetch_block_traces_db[OF d2, of sch w3 n sess] p3 by simp
  show ?thesis
    unfolding a b c
    by (simp add: create_from_block_number_def p1 p2 p3 split: sum.splits prod.splits)
qed

lemma issued_emit: "issued w (emit e1 w) = [e1]"
  by (simp add: issued_def emit_def)

lemma issued_emit_emit: "issued w (emit e2 (emit e1 w)) = [e1, e2]"
  by (simp add: issued_def emit_def)

lemma issued_header:
  "issued w (snd (find_or_fetch_block w3 n sess w)) =
     (case sess of
        None \<Rightarrow> [Eth_get_block n]
      | Some s \<Rightarrow>
          (case fst (find_block s n w) of
             Inl e \<Rightarrow> [Select_blocks n]
           | Inr (ts, bf) \<Rightarrow>
               if ts \<noteq> 0 then [Select_blocks n] else [Select_blocks n, Eth_get_block n]))"
  by (simp add: find_or_fetch_block_eq issued_emit issued_emit_emit
           split: option.splits sum.splits prod.splits)

lemma issued_receipts:
  "issued w (snd (find_or_fetch_block_receipts sch w3 n sess w)) =
     (case sess of
        None \<Rightarrow> [Eth_get_block_receipts n]
      | Some s \<Rightarrow>
          (case fst (find_block_receipts sch s n w) of
             Inl e \<Rightarrow> [Select_block_receipts n]
           | Inr (Some rs) \<Rightarrow> [Select_block_receipts n]
           | Inr None \<Rightarrow> [Select_block_receipts n, Eth_get_block_receipts n]))"
  by (simp add: find_or_fetch_block_receipts_eq issued_emit issued_emit_emit
           split: option.splits sum.splits)

lemma issued_traces:
  "issued w (snd (find_or_fetch_block_traces sch w3 n sess w)) =
     (case sess of
        None \<Rightarrow> [Eth_trace_block n]
      | Some s \<Rightarrow>
          (case fst (find_block_traces sch s n w) of
             Inl e \<Rightarrow> [Select_block_traces n]
           | Inr (Some ts) \<Rightarrow> [Select_block_traces n]
           | Inr None \<Rightarrow> [Select_block_traces n, Eth_trace_block n]))"
  by (simp add: find_or_fetch_block_traces_eq issued_emit issued_emit_emit
           split: option.splits sum.splits)

lemma issued_header_db:
  "db w' = db w \<Longrightarrow>
   issued w' (snd (find_or_fetch_block w3 n sess w'))
     = issued w (snd (find_or_fetch_block w3 n sess w))"
  by (cases sess) (simp_all add: issued_header fst_find_block_db[of w' w])

lemma issued_receipts_db:
  "db w' = db w \<Longrightarrow>
   issued w' (snd (find_or_fetch_block_receipts sch w3 n sess w'))
     = issued w (snd (find_or_fetch_block_receipts sch w3 n sess w))"
  by (cases sess) (simp_all add: issued_receipts fst_find_block_receipts_db[of w' w])

lemma issued_traces_db:
  "db w' = db w \<Longrightarrow>
   issued w' (snd (find_or_fetch_block_traces sch w3 n sess w'))
     = issued w (snd (find_or_fetch_block_traces sch w3 n sess w))"
  by (cases sess) (simp_all add: issued_traces fst_find_block_traces_db[of w' w])

lemma header_extends:
  "snd (find_or_fetch_block w3 n sess w)
     = w\<lparr>history := history w @ issued w (snd (find_or_fetch_block w3 n sess w))\<rparr>"
  using header_events[of w3 n sess w] by (auto simp: issued_def)

lemma receipts_extends:
  "snd (find_or_fetch_block_receipts sch w3 n sess w)
     = w\<lparr>history := history w @ issued w (snd (find_or_fetch_block_receipts sch w3 n sess w))\<rparr>"
  using receipts_events[of sch w3 n sess w] by (auto simp: issued_def)

lemma traces_extends:
  "snd (find_or_fetch_block_traces sch w3 n sess w)
     = w\<lparr>history := history w @ issued w (snd (find_or_fetch_block_traces sch w3 n sess w))\<rparr>"
  using traces_events[of sch w3 n sess w] by (auto simp: issued_def)

lemma create_issued:
  "issued w (snd (create_from_block_number first sch w3 n sess w)) =
     issued w (snd (find_or_fetch_block w3 n sess w))
     @ issued w (snd (find_or_fetch_block_receipts sch w3 n sess w))
     @ issued w (snd (find_or_fetch_block_traces sch w3 n sess w))"
    (is "_ = ?e1 @ ?e2 @ ?e3")
proof -
  define w1 where "w1 = snd (find_or_fetch_block w3 n sess w)"
  define w2 where "w2 = snd (find_or_fetch_block_receipts sch w3 n sess w1)"
  define w3' where "w3' = snd (find_or_fetch_block_traces sch w3 n sess w2)"
  have h1: "w1 = w\<lparr>history := history w @ ?e1\<rparr>"
    unfolding w1_def by (rule header_extends)
  then have d1: "db w1 = db w" by simp
  have "issued w1 w2 = ?e2"
    unfolding w2_def by (rule issued_receipts_db[OF d1])
  then have h2: "w2 = w1\<lparr>history := history w1 @ ?e2\<rparr>"
    using receipts_extends[of sch w3 n sess w1] by (simp add: w2_def)
  then have d2: "db w2 = db w" using d1 by simp
  have "issued w2 w3' = ?e3"
    unfolding w3'_def by (rule issued_traces_db[OF d2])
  then have h3: "w3' = w2\<lparr>history := history w2 @ ?e3\<rparr>"
    using traces_extends[of sch w3 n sess w2] by (simp add: w3'_def)
  have c: "snd (create_from_block_number first sch w3 n sess w) = w3'"
    by (simp add: snd_create w1_def w2_def w3'_def)
  have "history w3' = history w2 @ ?e3" by (subst h3) simp
  moreover have "history w2 = history w1 @ ?e2" by (subst h2) simp
  moreover have "history w1 = history w @ ?e1" by (subst h1) simp
  ultimately have "history w3' = history w @ ?e1 @ ?e2 @ ?e3" by simp
  then show ?thesis unfolding c by (simp add: issued_def)
qed

lemma db_create: "db (snd (create_from_block_number first sch w3 n sess w)) = db w"
  by (simp add: snd_create db_find_or_fetch_block db_find_or_fetch_block_receipts
        db_find_or_fetch_block_traces)

subsection \<open>The assembled block\<close>

lemma find_block_rows:
  "fst (find_block s n w) =
     (case one_or_none (map snd (filter (\<lambda>r. fst r = n) (blocks (db w)))) of
        Inl e \<Rightarrow> Inl e
      | Inr None \<Rightarrow> Inr (0, 0)
      | Inr (Some (ts, bf)) \<Rightarrow> Inr (ts, bf))"
  by (simp add: find_block_def select_blocks_def split: sum.splits option.splits prod.splits)

lemma find_block_receipts_rows:
  "fst (find_block_receipts sch s n w) =
     (case one_or_none (map snd (filter (\<lambda>r. fst r = n) (block_receipts (db w)))) of
        Inl e \<Rightarrow> Inl e
      | Inr None \<Rightarrow> Inr None
      | Inr (Some receipts_json) \<Rightarrow>
          (case comprehension (Receipt_of sch) receipts_json of
             Inl e \<Rightarrow> Inl e
           | Inr rs \<Rightarrow> Inr (Some rs)))"
  by (simp add: find_block_receipts_def select_block_receipts_def
           split: sum.splits option.splits prod.splits)

lemma find_block_traces_rows:
  "fst (find_block_traces sch s n w) =
     (case one_or_none (map snd (filter (\<lambda>r. fst r = n) (block_traces (db w)))) of
        Inl e \<Rightarrow> Inl e
      | Inr None \<Rightarrow> Inr None
      | Inr (Some traces_json) \<Rightarrow>
          (case comprehension (Trace_of sch) traces_json of
             Inl e \<Rightarrow> Inl e
           | Inr ts \<Rightarrow> Inr (Some ts)))"
  by (simp add: find_block_traces_def select_block_traces_def
           split: sum.splits option.splits prod.splits)

lemma gather_Inr:
  "gather first a b c = Inr (x, y, z) \<longleftrightarrow> a = Inr x \<and> b = Inr y \<and> c = Inr z"
  by (auto simp: gather_def Let_def split: sum.splits)

lemma create_Inr:
  "fst (create_from_block_number first sch w3 n sess w) = Inr b \<Longrightarrow>
   fst (find_or_fetch_block w3 n sess w) = Inr (block_timestamp b, base_fee_per_gas b)
   \<and> fst (find_or_fetch_block_receipts sch w3 n sess w) = Inr (receipts b)
   \<and> fst (find_or_fetch_block_traces sch w3 n sess w) = Inr (traces b)
   \<and> get_miner_address_from_traces (traces b) = Inr (miner b)
   \<and> block_number b = n"
  by (auto simp: create_result gather_Inr split: sum.splits prod.splits)

lemma create_all_succeed:
  "fst (find_or_fetch_block w3 n sess w) = Inr (ts, bf) \<Longrightarrow>
   fst (find_or_fetch_block_receipts sch w3 n sess w) = Inr rs \<Longrightarrow>
   fst (find_or_fetch_block_traces sch w3 n sess w) = Inr trs \<Longrightarrow>
   get_miner_address_from_traces trs = Inr m \<Longrightarrow>
   fst (create_from_block_number first sch w3 n sess w) =
     Inr \<lparr>block_number = n, block_timestamp = ts, miner = m, base_fee_per_gas = bf,
          traces = trs, receipts = rs\<rparr>"
  by (simp add: create_result gather_def)

text \<open>
  C1. With a cache configured and exactly one header row for the block, whose
  timestamp is not zero, \<^verbatim>\<open>create_from_block_number\<close> sends no \<^verbatim>\<open>get_block\<close> request
  to the node; the header lookup yields the cached pair, and a returned block carries
  that timestamp and that base fee as they are cached, whatever the block number. The
  block is returned as soon as the receipts and traces lookups and the miner
  derivation succeed.
\<close>

theorem cached_header_is_used:
  assumes rows: "map snd (filter (\<lambda>r. fst r = n) (blocks (db w))) = [(ts, bf)]"
      and nz: "ts \<noteq> 0"
  shows "fst (find_or_fetch_block w3 n (Some s) w) = Inr (ts, bf)
     \<and> (\<forall>m. Eth_get_block m \<notin>
            set (issued w (snd (create_from_block_number first sch w3 n (Some s) w))))
     \<and> (\<forall>b. fst (create_from_block_number first sch w3 n (Some s) w) = Inr b
            \<longrightarrow> block_timestamp b = ts \<and> base_fee_per_gas b = bf)
     \<and> (\<forall>rs trs m.
            fst (find_or_fetch_block_receipts sch w3 n (Some s) w) = Inr rs
          \<and> fst (find_or_fetch_block_traces sch w3 n (Some s) w) = Inr trs
          \<and> get_miner_address_from_traces trs = Inr m
          \<longrightarrow> fst (create_from_block_number first sch w3 n (Some s) w) =
                Inr \<lparr>block_number = n, block_timestamp = ts, miner = m,
                     base_fee_per_gas = bf, traces = trs, receipts = rs\<rparr>)"
proof -
  have fb: "fst (find_block s n w) = Inr (ts, bf)"
    by (simp add: find_block_rows rows)
  have hdr: "fst (find_or_fetch_block w3 n (Some s) w) = Inr (ts, bf)"
    using nz by (simp add: find_or_fetch_block_eq fb)
  have ev: "issued w (snd (find_or_fetch_block w3 n (Some s) w)) = [Select_blocks n]"
    using nz by (simp add: issued_header fb)
  have "Eth_get_block m \<notin>
          set (issued w (snd (create_from_block_number first sch w3 n (Some s) w)))" for m
    by (auto simp: create_issued ev issued_receipts issued_traces
             split: sum.splits option.splits)
  moreover have "block_timestamp b = ts \<and> base_fee_per_gas b = bf"
    if "fst (create_from_block_number first sch w3 n (Some s) w) = Inr b" for b
    using create_Inr[OF that] hdr by simp
  moreover have "fst (create_from_block_number first sch w3 n (Some s) w) =
                Inr \<lparr>block_number = n, block_timestamp = ts, miner = m,
                     base_fee_per_gas = bf, traces = trs, receipts = rs\<rparr>"
    if "fst (find_or_fetch_block_receipts sch w3 n (Some s) w) = Inr rs
          \<and> fst (find_or_fetch_block_traces sch w3 n (Some s) w) = Inr trs
          \<and> get_miner_address_from_traces trs = Inr m" for rs trs m
    using that hdr by (simp add: create_all_succeed)
  ultimately show ?thesis using hdr by blast
qed

theorem cached_header_is_used_witness:
  "map snd (filter (\<lambda>r. fst r = 12970000)
      (blocks (db \<lparr>db = \<lparr>blocks = [(12970000, 1622547800, 1000000000)],
                         block_traces = [], block_receipts = []\<rparr>, history = []\<rparr>)))
     = [(1622547800, 1000000000)]
   \<and> (1622547800 :: int) \<noteq> 0
   \<and> fst (create_from_block_number 0
        \<lparr>Trace_of = (\<lambda>j. Inr \<lparr>type = reward, transaction_hash = None,
                                 action = [''author'' \<mapsto> ''0xminer'']\<rparr>),
         Receipt_of = (\<lambda>j. Inr j)\<rparr>
        \<lparr>get_block = (\<lambda>k. Inr [''timestamp'' \<mapsto> 5, ''baseFeePerGas'' \<mapsto> 7]),
         get_block_receipts = (\<lambda>k. Inr [JStr ''r1'']),
         trace_block = (\<lambda>k. Inr [JStr ''t1''])\<rparr>
        12970000 (Some Session)
        \<lparr>db = \<lparr>blocks = [(12970000, 1622547800, 1000000000)],
                block_traces = [], block_receipts = []\<rparr>, history = []\<rparr>)
     = Inr \<lparr>block_number = 12970000, block_timestamp = 1622547800,
            miner = Some ''0xminer'', base_fee_per_gas = 1000000000,
            traces = [\<lparr>type = reward, transaction_hash = None,
                       action = [''author'' \<mapsto> ''0xminer'']\<rparr>],
            receipts = [JStr ''r1'']\<rparr>"
  using cached_header_is_used
          [where n = 12970000 and ts = 1622547800 and bf = 1000000000 and s = Session
             and first = 0
             and w = "\<lparr>db = \<lparr>blocks = [(12970000, 1622547800, 1000000000)],
                              block_traces = [], block_receipts = []\<rparr>, history = []\<rparr>"
             and ?w3.0 = "\<lparr>get_block = (\<lambda>k. Inr [''timestamp'' \<mapsto> 5, ''baseFeePerGas'' \<mapsto> 7]),
                          get_block_receipts = (\<lambda>k. Inr [JStr ''r1'']),
                          trace_block = (\<lambda>k. Inr [JStr ''t1''])\<rparr>"
             and sch = "\<lparr>Trace_of = (\<lambda>j. Inr \<lparr>type = reward, transaction_hash = None,
                                 action = [''author'' \<mapsto> ''0xminer'']\<rparr>),
                         Receipt_of = (\<lambda>j. Inr j)\<rparr>"]
  by (simp add: find_or_fetch_block_receipts_eq find_or_fetch_block_traces_eq
        find_block_receipts_rows find_block_traces_rows
        fetch_block_receipts_def fetch_block_traces_def)

subsection \<open>Cache hits and misses\<close>

lemma fst_fetch_block:
  "fst (fetch_block w3 n w) =
     (case get_block w3 n of
        Inl e \<Rightarrow> Inl e
      | Inr hdr \<Rightarrow>
          (case hdr ''timestamp'' of
             None \<Rightarrow> Inl (KeyError ''timestamp'')
           | Some ts \<Rightarrow>
               if n \<ge> 12965000
               then (case hdr ''baseFeePerGas'' of
                       None \<Rightarrow> Inl (KeyError ''baseFeePerGas'')
                     | Some bf \<Rightarrow> Inr (ts, bf))
               else Inr (ts, 0)))"
  by (simp add: fetch_block_def Let_def split: sum.splits option.splits)

lemma fresh_header:
  "sess = None \<or> (\<exists>s bf'. sess = Some s \<and> fst (find_block s n w) = Inr (0, bf')) \<Longrightarrow>
   fst (find_or_fetch_block w3 n sess w) = fst (fetch_block w3 n w)"
  by (auto simp: find_or_fetch_block_eq)

text \<open>
  C2. With a cache configured, a single cached row whose receipts (traces) list is
  empty is a hit: the lookup yields the empty list, a returned block has it, and no
  \<^verbatim>\<open>get_block_receipts\<close> (\<^verbatim>\<open>trace_block\<close>) request is sent. That request is sent
  exactly when \<^verbatim>\<open>_find_block_receipts\<close> (\<^verbatim>\<open>_find_block_traces\<close>) returns \<^verbatim>\<open>None\<close>.
\<close>

theorem empty_cached_list_is_a_hit:
  "(map snd (filter (\<lambda>r. fst r = n) (block_receipts (db w))) = [[]] \<longrightarrow>
      fst (find_or_fetch_block_receipts sch w3 n (Some s) w) = Inr []
      \<and> (\<forall>m. Eth_get_block_receipts m \<notin>
             set (issued w (snd (create_from_block_number first sch w3 n (Some s) w))))
      \<and> (\<forall>b. fst (create_from_block_number first sch w3 n (Some s) w) = Inr b
             \<longrightarrow> receipts b = []))
   \<and> (map snd (filter (\<lambda>r. fst r = n) (block_traces (db w))) = [[]] \<longrightarrow>
      fst (find_or_fetch_block_traces sch w3 n (Some s) w) = Inr []
      \<and> (\<forall>m. Eth_trace_block m \<notin>
             set (issued w (snd (create_from_block_number first sch w3 n (Some s) w))))
      \<and> (\<forall>b. fst (create_from_block_number first sch w3 n (Some s) w) = Inr b
             \<longrightarrow> traces b = []))
   \<and> ((\<exists>m. Eth_get_block_receipts m \<in>
             set (issued w (snd (create_from_block_number first sch w3 n (Some s) w))))
        \<longleftrightarrow> fst (find_block_receipts sch s n w) = Inr None)
   \<and> ((\<exists>m. Eth_trace_block m \<in>
             set (issued w (snd (create_from_block_number first sch w3 n (Some s) w))))
        \<longleftrightarrow> fst (find_block_traces sch s n w) = Inr None)"
proof (intro conjI impI)
  assume rows: "map snd (filter (\<lambda>r. fst r = n) (block_receipts (db w))) = [[]]"
  then have fb: "fst (find_block_receipts sch s n w) = Inr (Some [])"
    by (simp add: find_block_receipts_rows)
  then show hit: "fst (find_or_fetch_block_receipts sch w3 n (Some s) w) = Inr []"
    by (simp add: find_or_fetch_block_receipts_eq)
  show "\<forall>m. Eth_get_block_receipts m \<notin>
             set (issued w (snd (create_from_block_number first sch w3 n (Some s) w)))"
    by (auto simp: create_issued issued_header issued_receipts issued_traces fb
             split: sum.splits option.splits prod.splits)
  show "\<forall>b. fst (create_from_block_number first sch w3 n (Some s) w) = Inr b
             \<longrightarrow> receipts b = []"
    using hit create_Inr[of first sch w3 n "Some s" w] by auto
next
  assume rows: "map snd (filter (\<lambda>r. fst r = n) (block_traces (db w))) = [[]]"
  then have fb: "fst (find_block_traces sch s n w) = Inr (Some [])"
    by (simp add: find_block_traces_rows)
  then show hit: "fst (find_or_fetch_block_traces sch w3 n (Some s) w) = Inr []"
    by (simp add: find_or_fetch_block_traces_eq)
  show "\<forall>m. Eth_trace_block m \<notin>
             set (issued w (snd (create_from_block_number first sch w3 n (Some s) w)))"
    by (auto simp: create_issued issued_header issued_receipts issued_traces fb
             split: sum.splits option.splits prod.splits)
  show "\<forall>b. fst (create_from_block_number first sch w3 n (Some s) w) = Inr b
             \<longrightarrow> traces b = []"
    using hit create_Inr[of first sch w3 n "Some s" w] by auto
next
  show "(\<exists>m. Eth_get_block_receipts m \<in>
             set (issued w (snd (create_from_block_number first sch w3 n (Some s) w))))
        \<longleftrightarrow> fst (find_block_receipts sch s n w) = Inr None"
    by (auto simp: create_issued issued_header issued_receipts issued_traces
             split: sum.splits option.splits prod.splits)
  show "(\<exists>m. Eth_trace_block m \<in>
             set (issued w (snd (create_from_block_number first sch w3 n (Some s) w))))
        \<longleftrightarrow> fst (find_block_traces sch s n w) = Inr None"
    by (auto simp: create_issued issued_header issued_receipts issued_traces
             split: sum.splits option.splits prod.splits)
qed

theorem empty_cached_list_is_a_hit_witness:
  "map snd (filter (\<lambda>r. fst r = 12970000)
      (block_receipts (db \<lparr>db = \<lparr>blocks = [], block_traces = [(12970000, [])],
                               block_receipts = [(12970000, [])]\<rparr>, history = []\<rparr>))) = [[]]
   \<and> map snd (filter (\<lambda>r. fst r = 12970000)
      (block_traces (db \<lparr>db = \<lparr>blocks = [], block_traces = [(12970000, [])],
                             block_receipts = [(12970000, [])]\<rparr>, history = []\<rparr>))) = [[]]
   \<and> create_from_block_number 0
        \<lparr>Trace_of = (\<lambda>j. Inl (ValidationError ''trace'')),
         Receipt_of = (\<lambda>j. Inl (ValidationError ''receipt''))\<rparr>
        \<lparr>get_block = (\<lambda>k. Inr [''timestamp'' \<mapsto> 1628166822, ''baseFeePerGas'' \<mapsto> 7]),
         get_block_receipts = (\<lambda>k. Inr [JStr ''r1'']),
         trace_block = (\<lambda>k. Inr [JStr ''t1''])\<rparr>
        12970000 (Some Session)
        \<lparr>db = \<lparr>blocks = [], block_traces = [(12970000, [])],
                block_receipts = [(12970000, [])]\<rparr>, history = []\<rparr>
     = (Inr \<lparr>block_number = 12970000, block_timestamp = 1628166822, miner = None,
             base_fee_per_gas = 7, traces = [], receipts = ([] :: json list)\<rparr>,
        \<lparr>db = \<lparr>blocks = [], block_traces = [(12970000, [])],
                block_receipts = [(12970000, [])]\<rparr>,
         history = [Select_blocks 12970000, Eth_get_block 12970000,
                    Select_block_receipts 12970000, Select_block_traces 12970000]\<rparr>)"
  using empty_cached_list_is_a_hit
          [where n = 12970000 and s = Session and first = 0
             and w = "\<lparr>db = \<lparr>blocks = [], block_traces = [(12970000, [])],
                              block_receipts = [(12970000, [])]\<rparr>, history = []\<rparr>"
             and ?w3.0 = "\<lparr>get_block = (\<lambda>k. Inr [''timestamp'' \<mapsto> 1628166822, ''baseFeePerGas'' \<mapsto> 7]),
                          get_block_receipts = (\<lambda>k. Inr [JStr ''r1'']),
                          trace_block = (\<lambda>k. Inr [JStr ''t1''])\<rparr>"
             and sch = "\<lparr>Trace_of = (\<lambda>j. Inl (ValidationError ''trace'')),
                         Receipt_of = (\<lambda>j. Inl (ValidationError ''receipt'')
                                          :: error + json)\<rparr>"]
  by (simp add: prod_eq_iff create_result snd_create gather_def
        find_or_fetch_block_eq find_or_fetch_block_receipts_eq find_or_fetch_block_traces_eq
        find_block_rows find_block_receipts_rows find_block_traces_rows
        fst_fetch_block emit_def)

text \<open>
  C3. \<^verbatim>\<open>_find_block\<close> returns the pair \<open>(0, 0)\<close> when there is no row and \<open>(0, base_fee)\<close>
  for a row whose timestamp is zero; on either, \<^verbatim>\<open>_find_or_fetch_block\<close> goes on to
  \<^verbatim>\<open>_fetch_block\<close>: it returns what the fetch returns and sends the \<^verbatim>\<open>get_block\<close>
  request after the query.
\<close>

theorem zero_timestamp_is_a_miss:
  "(map snd (filter (\<lambda>r. fst r = n) (blocks (db w))) = [] \<longrightarrow>
      fst (find_block s n w) = Inr (0, 0))
   \<and> (map snd (filter (\<lambda>r. fst r = n) (blocks (db w))) = [(0, bf)] \<longrightarrow>
      fst (find_block s n w) = Inr (0, bf))
   \<and> (fst (find_block s n w) = Inr (0, bf) \<longrightarrow>
        find_or_fetch_block w3 n (Some s) w = fetch_block w3 n (snd (find_block s n w))
      \<and> fst (find_or_fetch_block w3 n (Some s) w) = fst (fetch_block w3 n w)
      \<and> issued w (snd (find_or_fetch_block w3 n (Some s) w))
          = [Select_blocks n, Eth_get_block n])"
proof (intro conjI impI)
  assume "map snd (filter (\<lambda>r. fst r = n) (blocks (db w))) = []"
  then show "fst (find_block s n w) = Inr (0, 0)"
    by (simp add: find_block_rows)
next
  assume "map snd (filter (\<lambda>r. fst r = n) (blocks (db w))) = [(0, bf)]"
  then show "fst (find_block s n w) = Inr (0, bf)"
    by (simp add: find_block_rows)
next
  assume z: "fst (find_block s n w) = Inr (0, bf)"
  then show "find_or_fetch_block w3 n (Some s) w = fetch_block w3 n (snd (find_block s n w))"
    by (cases "find_block s n w") (simp add: find_or_fetch_block_def)
  show "fst (find_or_fetch_block w3 n (Some s) w) = fst (fetch_block w3 n w)"
    using z by (simp add: find_or_fetch_block_eq)
  show "issued w (snd (find_or_fetch_block w3 n (Some s) w))
          = [Select_blocks n, Eth_get_block n]"
    using z by (simp add: issued_header)
qed

theorem zero_timestamp_is_a_miss_witness:
  "map snd (filter (\<lambda>r. fst r = 13000000)
      (blocks (db \<lparr>db = \<lparr>blocks = [(13000000, 0, 55)], block_traces = [],
                         block_receipts = []\<rparr>, history = []\<rparr>))) = [(0, 55)]
   \<and> map snd (filter (\<lambda>r. fst r = 13000001)
      (blocks (db \<lparr>db = \<lparr>blocks = [(13000000, 0, 55)], block_traces = [],
                         block_receipts = []\<rparr>, history = []\<rparr>))) = []
   \<and> find_or_fetch_block
        \<lparr>get_block = (\<lambda>k. Inr [''timestamp'' \<mapsto> 1628166822, ''baseFeePerGas'' \<mapsto> 7]),
         get_block_receipts = (\<lambda>k. Inr []), trace_block = (\<lambda>k. Inr [])\<rparr>
        13000000 (Some Session)
        \<lparr>db = \<lparr>blocks = [(13000000, 0, 55)], block_traces = [],
                block_receipts = []\<rparr>, history = []\<rparr>
     = (Inr (1628166822, 7),
        \<lparr>db = \<lparr>blocks = [(13000000, 0, 55)], block_traces = [], block_receipts = []\<rparr>,
         history = [Select_blocks 13000000, Eth_get_block 13000000]\<rparr>)
   \<and> fst (find_or_fetch_block
        \<lparr>get_block = (\<lambda>k. Inr [''timestamp'' \<mapsto> 1628166822, ''baseFeePerGas'' \<mapsto> 7]),
         get_block_receipts = (\<lambda>k. Inr []), trace_block = (\<lambda>k. Inr [])\<rparr>
        13000001 (Some Session)
        \<lparr>db = \<lparr>blocks = [(13000000, 0, 55)], block_traces = [],
                block_receipts = []\<rparr>, history = []\<rparr>)
     = Inr (1628166822, 7)"
  using zero_timestamp_is_a_miss
          [where n = 13000000 and s = Session and bf = 55
             and w = "\<lparr>db = \<lparr>blocks = [(13000000, 0, 55)], block_traces = [],
                              block_receipts = []\<rparr>, history = []\<rparr>"
             and ?w3.0 = "\<lparr>get_block = (\<lambda>k. Inr [''timestamp'' \<mapsto> 1628166822, ''baseFeePerGas'' \<mapsto> 7]),
                          get_block_receipts = (\<lambda>k. Inr []), trace_block = (\<lambda>k. Inr [])\<rparr>"]
        zero_timestamp_is_a_miss
          [where n = 13000001 and s = Session and bf = 0
             and w = "\<lparr>db = \<lparr>blocks = [(13000000, 0, 55)], block_traces = [],
                              block_receipts = []\<rparr>, history = []\<rparr>"
             and ?w3.0 = "\<lparr>get_block = (\<lambda>k. Inr [''timestamp'' \<mapsto> 1628166822, ''baseFeePerGas'' \<mapsto> 7]),
                          get_block_receipts = (\<lambda>k. Inr []), trace_block = (\<lambda>k. Inr [])\<rparr>"]
  by (simp add: prod_eq_iff find_or_fetch_block_eq find_block_rows fst_fetch_block emit_def)

subsection \<open>The base fee of a fetched header\<close>

text \<open>
  C4. When the header is fetched from the node (no cache, or a cache lookup with a zero
  timestamp): below block 12965000 the base fee is 0 whatever the header holds, also
  when the header has no \<^verbatim>\<open>baseFeePerGas\<close>, and a returned block has base fee 0; from
  block 12965000 on the base fee is the header's \<^verbatim>\<open>baseFeePerGas\<close>, whose absence
  raises \<^verbatim>\<open>KeyError\<close>.
\<close>

theorem fresh_header_base_fee:
  assumes fresh: "sess = None \<or> (\<exists>s bf'. sess = Some s \<and> fst (find_block s n w) = Inr (0, bf'))"
  shows "(n < 12965000 \<longrightarrow>
            (\<forall>hdr ts. get_block w3 n = Inr hdr \<and> hdr ''timestamp'' = Some ts
               \<longrightarrow> fst (find_or_fetch_block w3 n sess w) = Inr (ts, 0))
          \<and> (\<forall>b. fst (create_from_block_number first sch w3 n sess w) = Inr b
               \<longrightarrow> base_fee_per_gas b = 0))
       \<and> (12965000 \<le> n \<longrightarrow>
            (\<forall>hdr ts. get_block w3 n = Inr hdr \<and> hdr ''timestamp'' = Some ts
               \<longrightarrow> fst (find_or_fetch_block w3 n sess w) =
                     (case hdr ''baseFeePerGas'' of
                        None \<Rightarrow> Inl (KeyError ''baseFeePerGas'')
                      | Some bf \<Rightarrow> Inr (ts, bf)))
          \<and> (\<forall>b hdr. fst (create_from_block_number first sch w3 n sess w) = Inr b
                 \<and> get_block w3 n = Inr hdr
               \<longrightarrow> hdr ''baseFeePerGas'' = Some (base_fee_per_gas b)))"
proof -
  have eq: "fst (find_or_fetch_block w3 n sess w) = fst (fetch_block w3 n w)"
    using fresh by (rule fresh_header)
  have blk: "fst (fetch_block w3 n w) = Inr (block_timestamp b, base_fee_per_gas b)"
    if "fst (create_from_block_number first sch w3 n sess w) = Inr b" for b
    using create_Inr[OF that] eq by simp
  show ?thesis
  proof (intro conjI impI allI)
    fix hdr ts
    assume "n < 12965000" "get_block w3 n = Inr hdr \<and> hdr ''timestamp'' = Some ts"
    then show "fst (find_or_fetch_block w3 n sess w) = Inr (ts, 0)"
      by (simp add: eq fst_fetch_block)
  next
    fix b
    assume "n < 12965000" "fst (create_from_block_number first sch w3 n sess w) = Inr b"
    then show "base_fee_per_gas b = 0"
      using blk[of b] by (auto simp: fst_fetch_block split: sum.splits option.splits)
  next
    fix hdr ts
    assume "12965000 \<le> n" "get_block w3 n = Inr hdr \<and> hdr ''timestamp'' = Some ts"
    then show "fst (find_or_fetch_block w3 n sess w) =
                 (case hdr ''baseFeePerGas'' of
                    None \<Rightarrow> Inl (KeyError ''baseFeePerGas'')
                  | Some bf \<Rightarrow> Inr (ts, bf))"
      by (simp add: eq fst_fetch_block)
  next
    fix b hdr
    assume "12965000 \<le> n"
       "fst (create_from_block_number first sch w3 n sess w) = Inr b \<and> get_block w3 n = Inr hdr"
    then show "hdr ''baseFeePerGas'' = Some (base_fee_per_gas b)"
      using blk[of b] by (auto simp: fst_fetch_block split: sum.splits option.splits)
  qed
qed

theorem fresh_header_base_fee_witness:
  "fst (create_from_block_number 0
        \<lparr>Trace_of = (\<lambda>j. Inr \<lparr>type = reward, transaction_hash = None,
                                 action = [''author'' \<mapsto> ''0xminer'']\<rparr>),
         Receipt_of = (\<lambda>j. Inr j)\<rparr>
        \<lparr>get_block = (\<lambda>k. Inr [''timestamp'' \<mapsto> 1628166812, ''baseFeePerGas'' \<mapsto> 1000000000]),
         get_block_receipts = (\<lambda>k. Inr [JStr ''r1'']),
         trace_block = (\<lambda>k. Inr [JStr ''t1''])\<rparr>
        12964999 None
        \<lparr>db = \<lparr>blocks = [], block_traces = [], block_receipts = []\<rparr>, history = []\<rparr>)
     = Inr \<lparr>block_number = 12964999, block_timestamp = 1628166812,
            miner = Some ''0xminer'', base_fee_per_gas = 0,
            traces = [\<lparr>type = reward, transaction_hash = None,
                       action = [''author'' \<mapsto> ''0xminer'']\<rparr>],
            receipts = [JStr ''r1'']\<rparr>
   \<and> fst (find_or_fetch_block
        \<lparr>get_block = (\<lambda>k. Inr [''timestamp'' \<mapsto> 1628166822, ''baseFeePerGas'' \<mapsto> 1000000000]),
         get_block_receipts = (\<lambda>k. Inr []), trace_block = (\<lambda>k. Inr [])\<rparr>
        12965000 None
        \<lparr>db = \<lparr>blocks = [], block_traces = [], block_receipts = []\<rparr>, history = []\<rparr>)
     = Inr (1628166822, 1000000000)"
  using fresh_header_base_fee
          [where n = 12964999 and sess = None and first = 0
             and w = "\<lparr>db = \<lparr>blocks = [], block_traces = [], block_receipts = []\<rparr>,
                        history = []\<rparr>"
             and ?w3.0 = "\<lparr>get_block = (\<lambda>k. Inr [''timestamp'' \<mapsto> 1628166812, ''baseFeePerGas'' \<mapsto> 1000000000]),
                          get_block_receipts = (\<lambda>k. Inr [JStr ''r1'']),
                          trace_block = (\<lambda>k. Inr [JStr ''t1''])\<rparr>"
             and sch = "\<lparr>Trace_of = (\<lambda>j. Inr \<lparr>type = reward, transaction_hash = None,
                                 action = [''author'' \<mapsto> ''0xminer'']\<rparr>),
                         Receipt_of = (\<lambda>j. Inr j)\<rparr>"]
        fresh_header_base_fee
          [where n = 12965000 and sess = None and first = 0
             and w = "\<lparr>db = \<lparr>blocks = [], block_traces = [], block_receipts = []\<rparr>,
                        history = []\<rparr>"
             and ?w3.0 = "\<lparr>get_block = (\<lambda>k. Inr [''timestamp'' \<mapsto> 1628166822, ''baseFeePerGas'' \<mapsto> 1000000000]),
                          get_block_receipts = (\<lambda>k. Inr []), trace_block = (\<lambda>k. Inr [])\<rparr>"
             and sch = "\<lparr>Trace_of = (\<lambda>j. Inr \<lparr>type = reward, transaction_hash = None,
                                 action = [''author'' \<mapsto> ''0xminer'']\<rparr>),
                         Receipt_of = (\<lambda>j. Inr j)\<rparr>"]
  by (simp add: create_result gather_def
        find_or_fetch_block_eq find_or_fetch_block_receipts_eq find_or_fetch_block_traces_eq
        fst_fetch_block fetch_block_receipts_def fetch_block_traces_def)

subsection \<open>Failures\<close>

lemma gather_Inl:
  "isl a \<or> isl b \<or> isl c \<Longrightarrow>
   \<exists>e. gather first a b c = Inl e \<and> e \<in> set (raised a @ raised b @ raised c)"
proof -
  assume f: "isl a \<or> isl b \<or> isl c"
  let ?failed = "raised a @ raised b @ raised c"
  have ne: "?failed \<noteq> []"
    using f by (auto simp: raised_def isl_def)
  then have "first mod length ?failed < length ?failed" by simp
  then have mem: "?failed ! (first mod length ?failed) \<in> set ?failed"
    by (rule nth_mem)
  have "gather first a b c = Inl (?failed ! (first mod length ?failed))"
    using f by (auto simp: gather_def Let_def isl_def split: sum.splits)
  with mem show ?thesis by blast
qed

lemma comprehension_Inl:
  "x \<in> set xs \<Longrightarrow> f x = Inl e \<Longrightarrow> isl (comprehension f xs)"
  by (induction xs) (auto split: sum.splits)

text \<open>
  C7. If one of the three lookups raises, \<^verbatim>\<open>create_from_block_number\<close> raises one of
  the exceptions raised by the lookups and returns no block, whatever the other two
  return; a block is returned only if all three lookups returned, and it holds what
  they returned. A transport failure of any of the three requests, and a failure of
  the \<^verbatim>\<open>Trace\<close> or \<^verbatim>\<open>Receipt\<close> constructor on a fetched record, make the assembly
  without a cache raise.
\<close>

theorem any_failure_fails_assembly:
  "(isl (fst (find_or_fetch_block w3 n sess w))
      \<or> isl (fst (find_or_fetch_block_receipts sch w3 n sess w))
      \<or> isl (fst (find_or_fetch_block_traces sch w3 n sess w))
    \<longrightarrow> (\<exists>e. fst (create_from_block_number first sch w3 n sess w) = Inl e
            \<and> e \<in> set (raised (fst (find_or_fetch_block w3 n sess w))
                       @ raised (fst (find_or_fetch_block_receipts sch w3 n sess w))
                       @ raised (fst (find_or_fetch_block_traces sch w3 n sess w)))))
   \<and> (\<forall>b. fst (create_from_block_number first sch w3 n sess w) = Inr b
        \<longrightarrow> fst (find_or_fetch_block w3 n sess w) = Inr (block_timestamp b, base_fee_per_gas b)
          \<and> fst (find_or_fetch_block_receipts sch w3 n sess w) = Inr (receipts b)
          \<and> fst (find_or_fetch_block_traces sch w3 n sess w) = Inr (traces b))
   \<and> (\<forall>e. get_block w3 n = Inl e \<or> get_block_receipts w3 n = Inl e \<or> trace_block w3 n = Inl e
        \<longrightarrow> isl (fst (create_from_block_number first sch w3 n None w)))
   \<and> (\<forall>js j e. (get_block_receipts w3 n = Inr js \<and> j \<in> set js \<and> Receipt_of sch j = Inl e)
               \<or> (trace_block w3 n = Inr js \<and> j \<in> set js \<and> Trace_of sch j = Inl e)
        \<longrightarrow> isl (fst (create_from_block_number first sch w3 n None w)))"
proof -
  have c1: "isl (fst (find_or_fetch_block w3 n sess w))
      \<or> isl (fst (find_or_fetch_block_receipts sch w3 n sess w))
      \<or> isl (fst (find_or_fetch_block_traces sch w3 n sess w))
    \<longrightarrow> (\<exists>e. fst (create_from_block_number first sch w3 n sess w) = Inl e
            \<and> e \<in> set (raised (fst (find_or_fetch_block w3 n sess w))
                       @ raised (fst (find_or_fetch_block_receipts sch w3 n sess w))
                       @ raised (fst (find_or_fetch_block_traces sch w3 n sess w))))"
  proof
    assume "isl (fst (find_or_fetch_block w3 n sess w))
      \<or> isl (fst (find_or_fetch_block_receipts sch w3 n sess w))
      \<or> isl (fst (find_or_fetch_block_traces sch w3 n sess w))"
    from gather_Inl[OF this, of first]
    show "\<exists>e. fst (create_from_block_number first sch w3 n sess w) = Inl e
            \<and> e \<in> set (raised (fst (find_or_fetch_block w3 n sess w))
                       @ raised (fst (find_or_fetch_block_receipts sch w3 n sess w))
                       @ raised (fst (find_or_fetch_block_traces sch w3 n sess w)))"
      by (auto simp: create_result)
  qed
  have c2: "\<forall>b. fst (create_from_block_number first sch w3 n sess w) = Inr b
        \<longrightarrow> fst (find_or_fetch_block w3 n sess w) = Inr (block_timestamp b, base_fee_per_gas b)
          \<and> fst (find_or_fetch_block_receipts sch w3 n sess w) = Inr (receipts b)
          \<and> fst (find_or_fetch_block_traces sch w3 n sess w) = Inr (traces b)"
    using create_Inr[of first sch w3 n sess w] by simp
  have none: "isl (fst (create_from_block_number first sch w3 n None w))"
    if "isl (fst (find_or_fetch_block w3 n None w))
      \<or> isl (fst (find_or_fetch_block_receipts sch w3 n None w))
      \<or> isl (fst (find_or_fetch_block_traces sch w3 n None w))"
    using gather_Inl[OF that, of first] by (auto simp: create_result)
  have c3: "\<forall>e. get_block w3 n = Inl e \<or> get_block_receipts w3 n = Inl e
                 \<or> trace_block w3 n = Inl e
        \<longrightarrow> isl (fst (create_from_block_number first sch w3 n None w))"
  proof (intro allI impI)
    fix e
    assume "get_block w3 n = Inl e \<or> get_block_receipts w3 n = Inl e \<or> trace_block w3 n = Inl e"
    then have "isl (fst (find_or_fetch_block w3 n None w))
      \<or> isl (fst (find_or_fetch_block_receipts sch w3 n None w))
      \<or> isl (fst (find_or_fetch_block_traces sch w3 n None w))"
      by (auto simp: find_or_fetch_block_eq find_or_fetch_block_receipts_eq
            find_or_fetch_block_traces_eq fst_fetch_block fetch_block_receipts_def
            fetch_block_traces_def)
    then show "isl (fst (create_from_block_number first sch w3 n None w))"
      by (rule none)
  qed
  have c4: "\<forall>js j e. (get_block_receipts w3 n = Inr js \<and> j \<in> set js \<and> Receipt_of sch j = Inl e)
               \<or> (trace_block w3 n = Inr js \<and> j \<in> set js \<and> Trace_of sch j = Inl e)
        \<longrightarrow> isl (fst (create_from_block_number first sch w3 n None w))"
  proof (intro allI impI)
    fix js j e
    assume "(get_block_receipts w3 n = Inr js \<and> j \<in> set js \<and> Receipt_of sch j = Inl e)
               \<or> (trace_block w3 n = Inr js \<and> j \<in> set js \<and> Trace_of sch j = Inl e)"
    then have "isl (fst (find_or_fetch_block w3 n None w))
      \<or> isl (fst (find_or_fetch_block_receipts sch w3 n None w))
      \<or> isl (fst (find_or_fetch_block_traces sch w3 n None w))"
      using comprehension_Inl[of j js "Receipt_of sch" e]
            comprehension_Inl[of j js "Trace_of sch" e]
      by (auto simp: find_or_fetch_block_receipts_eq
            find_or_fetch_block_traces_eq fetch_block_receipts_def
            fetch_block_traces_def)
    then show "isl (fst (create_from_block_number first sch w3 n None w))"
      by (rule none)
  qed
  show ?thesis
    by (rule conjI[OF c1 conjI[OF c2 conjI[OF c3 c4]]])
qed

theorem any_failure_fails_assembly_witness:
  "fst (find_or_fetch_block
        \<lparr>get_block = (\<lambda>k. Inr [''timestamp'' \<mapsto> 1628166822, ''baseFeePerGas'' \<mapsto> 7]),
         get_block_receipts = (\<lambda>k. Inr []),
         trace_block = (\<lambda>k. Inl (TransportError ''connection reset''))\<rparr>
        13000000 None
        \<lparr>db = \<lparr>blocks = [], block_traces = [], block_receipts = []\<rparr>, history = []\<rparr>)
     = Inr (1628166822, 7)
   \<and> fst (find_or_fetch_block_receipts
        \<lparr>Trace_of = (\<lambda>j. Inl (ValidationError ''trace'')), Receipt_of = (\<lambda>j. Inr j)\<rparr>
        \<lparr>get_block = (\<lambda>k. Inr [''timestamp'' \<mapsto> 1628166822, ''baseFeePerGas'' \<mapsto> 7]),
         get_block_receipts = (\<lambda>k. Inr []),
         trace_block = (\<lambda>k. Inl (TransportError ''connection reset''))\<rparr>
        13000000 None
        \<lparr>db = \<lparr>blocks = [], block_traces = [], block_receipts = []\<rparr>, history = []\<rparr>)
     = Inr []
   \<and> fst (create_from_block_number 0
        \<lparr>Trace_of = (\<lambda>j. Inl (ValidationError ''trace'')), Receipt_of = (\<lambda>j. Inr j)\<rparr>
        \<lparr>get_block = (\<lambda>k. Inr [''timestamp'' \<mapsto> 1628166822, ''baseFeePerGas'' \<mapsto> 7]),
         get_block_receipts = (\<lambda>k. Inr []),
         trace_block = (\<lambda>k. Inl (TransportError ''connection reset''))\<rparr>
        13000000 None
        \<lparr>db = \<lparr>blocks = [], block_traces = [], block_receipts = []\<rparr>, history = []\<rparr>)
     = (Inl (TransportError ''connection reset'') :: error + json Block)"
  using any_failure_fails_assembly
          [where n = 13000000 and sess = None and first = 0
             and w = "\<lparr>db = \<lparr>blocks = [], block_traces = [], block_receipts = []\<rparr>,
                        history = []\<rparr>"
             and ?w3.0 = "\<lparr>get_block = (\<lambda>k. Inr [''timestamp'' \<mapsto> 1628166822, ''baseFeePerGas'' \<mapsto> 7]),
                          get_block_receipts = (\<lambda>k. Inr []),
                          trace_block = (\<lambda>k. Inl (TransportError ''connection reset''))\<rparr>"
             and sch = "\<lparr>Trace_of = (\<lambda>j. Inl (ValidationError ''trace'')),
                         Receipt_of = (\<lambda>j. Inr j :: error + json)\<rparr>"]
  by (simp add: raised_def
        find_or_fetch_block_eq find_or_fetch_block_receipts_eq find_or_fetch_block_traces_eq
        fst_fetch_block fetch_block_receipts_def fetch_block_traces_def)

subsection \<open>The database is only read\<close>

text \<open>
  C9. \<^verbatim>\<open>create_from_block_number\<close> leaves the database as it was: the world after it
  has the same database, the events it adds are the three \<^verbatim>\<open>SELECT\<close> statements and
  the three requests for that block number, and none of the statements changes the
  database.
\<close>

theorem cache_is_only_read:
  "db (snd (create_from_block_number first sch w3 n sess w)) = db w
   \<and> set (issued w (snd (create_from_block_number first sch w3 n sess w)))
       \<subseteq> {Select_blocks n, Select_block_receipts n, Select_block_traces n,
           Eth_get_block n, Eth_get_block_receipts n, Eth_trace_block n}
   \<and> db (snd (select_blocks n w)) = db w
   \<and> db (snd (select_block_receipts n w)) = db w
   \<and> db (snd (select_block_traces n w)) = db w
   \<and> db (snd (find_block s n w)) = db w"
  by (auto simp: db_create create_issued issued_header issued_receipts issued_traces
        select_blocks_def select_block_receipts_def select_block_traces_def db_emit
        snd_find_block
        split: sum.splits option.splits prod.splits if_splits)

subsection \<open>The chain head\<close>

lemma hex_digits_snoc:
  "hex_digits_to_int ds acc = Inr v \<Longrightarrow> hex_digit c = Some dg \<Longrightarrow>
   hex_digits_to_int (ds @ [c]) acc = Inr (16 * v + int dg)"
  by (induction ds arbitrary: acc) (auto split: option.splits)

lemma hex_digits_malformed:
  "c \<in> set ds \<Longrightarrow> hex_digit c = None \<Longrightarrow> hex_digits_to_int ds acc = Inl ValueError"
  by (induction ds arbitrary: acc) (auto split: option.splits)

lemma fst_get_latest_block_number:
  "fst (get_latest_block_number bp w) =
     (case make_request bp ''eth_getBlockByNumber'' [JStr ''latest'', JBool False] of
        Inl e \<Rightarrow> Inl e
      | Inr latest_block \<Rightarrow>
          (case getitem latest_block ''result'' of
             Inl e \<Rightarrow> Inl e
           | Inr res \<Rightarrow>
               (case getitem res ''number'' of
                  Inl e \<Rightarrow> Inl e
                | Inr number \<Rightarrow> hex_to_int number)))"
  by (simp add: get_latest_block_number_def Let_def split: sum.splits)

lemma snd_get_latest_block_number:
  "snd (get_latest_block_number bp w) =
     emit (Make_request ''eth_getBlockByNumber'' [JStr ''latest'', JBool False]) w"
  by (simp add: get_latest_block_number_def Let_def split: sum.splits)

text \<open>
  C8. \<^verbatim>\<open>get_latest_block_number\<close> sends the request
  \<^verbatim>\<open>eth_getBlockByNumber ["latest", false]\<close> and returns \<^verbatim>\<open>hex_to_int\<close> of the field
  \<^verbatim>\<open>number\<close> of the object \<^verbatim>\<open>result\<close>: 10 for \<^verbatim>\<open>"0xa"\<close>. The decoding reads base 16,
  most significant digit first (one digit is its value; a further digit multiplies by
  16 and adds). It raises when the request fails, when \<^verbatim>\<open>result\<close> or \<^verbatim>\<open>number\<close> is
  absent, and when a character is no hexadecimal digit.
\<close>

theorem latest_block_number_decodes_hex:
  "issued w (snd (get_latest_block_number bp w))
     = [Make_request ''eth_getBlockByNumber'' [JStr ''latest'', JBool False]]
   \<and> (\<forall>d r v. make_request bp ''eth_getBlockByNumber'' [JStr ''latest'', JBool False]
                  = Inr (JObj d)
               \<and> d ''result'' = Some (JObj r) \<and> r ''number'' = Some v
        \<longrightarrow> fst (get_latest_block_number bp w) = hex_to_int v)
   \<and> (make_request bp ''eth_getBlockByNumber'' [JStr ''latest'', JBool False]
         = Inr (JObj [''result'' \<mapsto> JObj [''number'' \<mapsto> JStr ''0xa'']])
        \<longrightarrow> fst (get_latest_block_number bp w) = Inr 10)
   \<and> (\<forall>c dg. hex_digit c = Some dg \<longrightarrow> hex_to_int (JStr (''0x'' @ [c])) = Inr (int dg))
   \<and> (\<forall>ds c v dg. hex_to_int (JStr (''0x'' @ ds)) = Inr v \<and> hex_digit c = Some dg
        \<longrightarrow> hex_to_int (JStr (''0x'' @ ds @ [c])) = Inr (16 * v + int dg))
   \<and> (\<forall>e. make_request bp ''eth_getBlockByNumber'' [JStr ''latest'', JBool False] = Inl e
        \<longrightarrow> fst (get_latest_block_number bp w) = Inl e)
   \<and> (\<forall>d. make_request bp ''eth_getBlockByNumber'' [JStr ''latest'', JBool False]
                  = Inr (JObj d)
            \<and> d ''result'' = None
        \<longrightarrow> fst (get_latest_block_number bp w) = Inl (KeyError ''result''))
   \<and> (\<forall>d r. make_request bp ''eth_getBlockByNumber'' [JStr ''latest'', JBool False]
                  = Inr (JObj d)
            \<and> d ''result'' = Some (JObj r) \<and> r ''number'' = None
        \<longrightarrow> fst (get_latest_block_number bp w) = Inl (KeyError ''number''))
   \<and> (\<forall>s c. c \<in> set (strip_0x s) \<and> hex_digit c = None
        \<longrightarrow> hex_to_int (JStr s) = Inl ValueError)"
proof -
  have c1: "issued w (snd (get_latest_block_number bp w))
     = [Make_request ''eth_getBlockByNumber'' [JStr ''latest'', JBool False]]"
    by (simp add: snd_get_latest_block_number issued_emit)
  have c2: "\<forall>d r v. make_request bp ''eth_getBlockByNumber'' [JStr ''latest'', JBool False]
                  = Inr (JObj d)
               \<and> d ''result'' = Some (JObj r) \<and> r ''number'' = Some v
        \<longrightarrow> fst (get_latest_block_number bp w) = hex_to_int v"
    by (simp add: fst_get_latest_block_number)
  have c3: "make_request bp ''eth_getBlockByNumber'' [JStr ''latest'', JBool False]
         = Inr (JObj [''result'' \<mapsto> JObj [''number'' \<mapsto> JStr ''0xa'']])
        \<longrightarrow> fst (get_latest_block_number bp w) = Inr 10"
    by (simp add: fst_get_latest_block_number hex_digit_def)
  have c4: "\<forall>c dg. hex_digit c = Some dg \<longrightarrow> hex_to_int (JStr (''0x'' @ [c])) = Inr (int dg)"
    by simp
  have c5: "\<forall>ds c v dg. hex_to_int (JStr (''0x'' @ ds)) = Inr v \<and> hex_digit c = Some dg
        \<longrightarrow> hex_to_int (JStr (''0x'' @ ds @ [c])) = Inr (16 * v + int dg)"
    by (simp add: hex_digits_snoc)
  have c6: "\<forall>e. make_request bp ''eth_getBlockByNumber'' [JStr ''latest'', JBool False] = Inl e
        \<longrightarrow> fst (get_latest_block_number bp w) = Inl e"
    by (simp add: fst_get_latest_block_number)
  have c7: "\<forall>d. make_request bp ''eth_getBlockByNumber'' [JStr ''latest'', JBool False]
                  = Inr (JObj d)
            \<and> d ''result'' = None
        \<longrightarrow> fst (get_latest_block_number bp w) = Inl (KeyError ''result'')"
    by (simp add: fst_get_latest_block_number)
  have c8: "\<forall>d r. make_request bp ''eth_getBlockByNumber'' [JStr ''latest'', JBool False]
                  = Inr (JObj d)
            \<and> d ''result'' = Some (JObj r) \<and> r ''number'' = None
        \<longrightarrow> fst (get_latest_block_number bp w) = Inl (KeyError ''number'')"
    by (simp add: fst_get_latest_block_number)
  have c9: "\<forall>s c. c \<in> set (strip_0x s) \<and> hex_digit c = None
        \<longrightarrow> hex_to_int (JStr s) = Inl ValueError"
    by (auto simp: hex_digits_malformed)
  show ?thesis
    by (rule conjI[OF c1 conjI[OF c2 conjI[OF c3 conjI[OF c4 conjI[OF c5 conjI[OF c6
          conjI[OF c7 conjI[OF c8 c9]]]]]]]])
qed

theorem latest_block_number_decodes_hex_witness:
  "fst (get_latest_block_number
          \<lparr>make_request =
             (\<lambda>m p. Inr (JObj [''result'' \<mapsto> JObj [''number'' \<mapsto> JStr ''0xa'']]))\<rparr>
          \<lparr>db = \<lparr>blocks = [], block_traces = [], block_receipts = []\<rparr>, history = []\<rparr>)
     = Inr 10
   \<and> hex_digit CHR ''f'' = Some 15
   \<and> hex_to_int (JStr ''0xaf'') = Inr 175
   \<and> CHR ''g'' \<in> set (strip_0x ''0xg'') \<and> hex_digit CHR ''g'' = None
   \<and> hex_to_int (JStr ''0xg'') = Inl ValueError"
  using latest_block_number_decodes_hex
          [of "\<lparr>db = \<lparr>blocks = [], block_traces = [], block_receipts = []\<rparr>, history = []\<rparr>"
              "\<lparr>make_request =
                 (\<lambda>m p. Inr (JObj [''result'' \<mapsto> JObj [''number'' \<mapsto> JStr ''0xa'']]))\<rparr>"]
  by (simp add: hex_digit_def)

end
